theory Spec2Isabelle
  imports Complex_Main "HOL-Library.AList"
begin

section \<open>Text splitter (packages/core/src/utils/textSplitter.ts)\<close>

text \<open>
  A JavaScript string is modelled as a \<^typ>\<open>string\<close>: a list of code units, of which the
  ones below 256 are representable. \<open>length\<close> counts code units, as \<open>text.length\<close> does.
  Indices returned by \<open>lastIndexOf\<close> are integers, because \<open>-1\<close> stands for "not found".
  \<open>maxChars\<close> is a character count, a natural number.
\<close>

definition period :: char where
  "period = CHR ''.''"

definition newline :: char where
  "newline = CHR 0x0A"

definition space :: char where
  "space = CHR '' ''"

text \<open>The characters \<open>String.prototype.trim\<close> strips, among the code units below 256:
  TAB, LF, VT, FF, CR, SPACE and NBSP.\<close>

definition isWhitespace :: "char \<Rightarrow> bool" where
  "isWhitespace c \<longleftrightarrow>
     c = CHR 0x09 \<or> c = CHR 0x0A \<or> c = CHR 0x0B \<or> c = CHR 0x0C \<or> c = CHR 0x0D
     \<or> c = CHR 0x20 \<or> c = CHR 0xA0"

definition trim :: "string \<Rightarrow> string" where
  "trim s = rev (dropWhile isWhitespace (rev (dropWhile isWhitespace s)))"

text \<open>\<open>text.lastIndexOf(c, fromIndex)\<close>: the greatest index \<open>i \<le> fromIndex\<close> with
  \<open>text[i] = c\<close>, or \<open>-1\<close>. Positions at or beyond the end of the text hold no character.\<close>

fun lastIndexOf :: "string \<Rightarrow> char \<Rightarrow> nat \<Rightarrow> int" where
  "lastIndexOf s c 0 = (if 0 < length s \<and> s ! 0 = c then 0 else - 1)"
| "lastIndexOf s c (Suc i) =
     (if Suc i < length s \<and> s ! Suc i = c then int (Suc i) else lastIndexOf s c i)"

text \<open>\<open>text.substring(a, b)\<close>: both indices are clamped to the length and swapped when
  \<open>a > b\<close>.\<close>

definition substring :: "string \<Rightarrow> nat \<Rightarrow> nat \<Rightarrow> string" where
  "substring s a b =
     (let a' = min a (length s); b' = min b (length s)
      in take (max a' b' - min a' b') (drop (min a' b') s))"

text \<open>
  The end of the chunk that starts at \<open>currentPos\<close> (lines 22 to 34 of the source). The test
  \<open>bestCutPoint > currentPos + maxChars * 0.8\<close> compares integers with a multiple of
  \<open>0.8\<close>; it is written here without fractions as
  \<open>5 * bestCutPoint > 5 * currentPos + 4 * maxChars\<close>. The source rounds the product and
  the sum to doubles. The exact sum is an integer or lies at least \<open>0.2\<close> from every integer,
  and for lengths below \<open>2\<close> to the power 45 the rounding moves it by less than that, so
  that the rounded sum compares to the integer \<open>bestCutPoint\<close> as the exact one does.
\<close>

definition nextEndPos :: "string \<Rightarrow> nat \<Rightarrow> nat \<Rightarrow> nat" where
  "nextEndPos text maxChars currentPos =
     (let endPos = min (currentPos + maxChars) (length text)
      in if endPos < length text then
           (let lastPeriod = lastIndexOf text period endPos;
                lastNewline = lastIndexOf text newline endPos;
                lastSpace = lastIndexOf text space endPos;
                bestCutPoint = max (max lastPeriod lastNewline) lastSpace
            in if 5 * bestCutPoint > 5 * int currentPos + 4 * int maxChars
               then nat (bestCutPoint + 1) else endPos)
         else endPos)"

text \<open>The \<open>while\<close> loop of \<open>splitIntoChunks\<close>. With \<open>maxChars = 0\<close> the cursor never
  advances and the loop does not return: that is the value \<open>None\<close>.\<close>

partial_function (option) splitLoop :: "string \<Rightarrow> nat \<Rightarrow> nat \<Rightarrow> string list \<Rightarrow> string list option"
  where
  "splitLoop text maxChars currentPos chunks =
     (if currentPos < length text then
        (let endPos = nextEndPos text maxChars currentPos;
             chunk = trim (substring text currentPos endPos)
         in splitLoop text maxChars endPos
              (if 0 < length chunk then chunks @ [chunk] else chunks))
      else Some chunks)"

declare splitLoop.simps [code]

definition splitIntoChunks :: "string \<Rightarrow> nat \<Rightarrow> string list option" where
  "splitIntoChunks text maxChars = splitLoop text maxChars 0 []"

text \<open>The words of the specification: a token is a maximal run of characters with no
  \<open>.\<close>, newline or space in it.\<close>

definition isBoundary :: "char \<Rightarrow> bool" where
  "isBoundary c \<longleftrightarrow> c = period \<or> c = newline \<or> c = space"

fun spec_tokens :: "string \<Rightarrow> string list" where
  "spec_tokens [] = [[]]"
| "spec_tokens (c # cs) =
     (if isBoundary c then [] # spec_tokens cs
      else (case spec_tokens cs of [] \<Rightarrow> [[c]] | t # ts \<Rightarrow> (c # t) # ts))"


section \<open>Numbers and errors\<close>

text \<open>
  A JavaScript \<open>number\<close> is a binary64 value: finite, infinite or \<open>NaN\<close>. A finite value
  is kept as the real number it stands for, and the result of an operation on finite
  values is rounded as IEEE 754 does, to the nearest double with ties to even: \<open>round64\<close>.
  An overflow gives an infinity, an underflow a subnormal or zero. The two zeros are not
  told apart: their difference could show only in the sign of a division by zero, and
  every divisor in this program is a product of square roots or a length, never the
  negative zero.
\<close>

datatype number = Fin real | PInf | NInf | NaN

definition roundHalfEven :: "real \<Rightarrow> int" where
  "roundHalfEven m =
     (let f = \<lfloor>m\<rfloor>
      in if m - of_int f < 1 / 2 then f
         else if 1 / 2 < m - of_int f then f + 1
         else if even f then f else f + 1)"

text \<open>The exponent of a double is at least \<open>-1022\<close> and its significand has 53 bits, so the
  doubles around \<open>x\<close> are the multiples of \<open>2\<close> to the power \<open>e - 52\<close>; a rounded value of
  magnitude \<open>2\<close> to the power \<open>1024\<close> is an overflow.\<close>

definition round64 :: "real \<Rightarrow> number" where
  "round64 x =
     (if x = 0 then Fin 0
      else
        (let e = max \<lfloor>log 2 \<bar>x\<bar>\<rfloor> (- 1022);
             ulp = 2 powr (of_int e - 52);
             r = of_int (roundHalfEven (x / ulp)) * ulp
         in if 2 ^ 1024 \<le> \<bar>r\<bar> then (if 0 < x then PInf else NInf) else Fin r))"

text \<open>\<open>a + b\<close>, \<open>a * b\<close>, \<open>Math.sqrt(a)\<close> and \<open>a / b\<close>.\<close>

fun js_add :: "number \<Rightarrow> number \<Rightarrow> number" where
  "js_add NaN _ = NaN"
| "js_add _ NaN = NaN"
| "js_add (Fin x) (Fin y) = round64 (x + y)"
| "js_add (Fin x) PInf = PInf"
| "js_add (Fin x) NInf = NInf"
| "js_add PInf NInf = NaN"
| "js_add PInf _ = PInf"
| "js_add NInf PInf = NaN"
| "js_add NInf _ = NInf"

fun js_mul :: "number \<Rightarrow> number \<Rightarrow> number" where
  "js_mul NaN _ = NaN"
| "js_mul _ NaN = NaN"
| "js_mul (Fin x) (Fin y) = round64 (x * y)"
| "js_mul (Fin x) PInf = (if x = 0 then NaN else if 0 < x then PInf else NInf)"
| "js_mul (Fin x) NInf = (if x = 0 then NaN else if 0 < x then NInf else PInf)"
| "js_mul PInf (Fin y) = (if y = 0 then NaN else if 0 < y then PInf else NInf)"
| "js_mul NInf (Fin y) = (if y = 0 then NaN else if 0 < y then NInf else PInf)"
| "js_mul PInf PInf = PInf"
| "js_mul PInf NInf = NInf"
| "js_mul NInf PInf = NInf"
| "js_mul NInf NInf = PInf"

fun js_sqrt :: "number \<Rightarrow> number" where
  "js_sqrt NaN = NaN"
| "js_sqrt (Fin x) = (if x < 0 then NaN else round64 (sqrt x))"
| "js_sqrt PInf = PInf"
| "js_sqrt NInf = NaN"

fun js_div :: "number \<Rightarrow> number \<Rightarrow> number" where
  "js_div NaN _ = NaN"
| "js_div _ NaN = NaN"
| "js_div (Fin x) (Fin y) =
     (if y \<noteq> 0 then round64 (x / y)
      else if x = 0 then NaN else if 0 < x then PInf else NInf)"
| "js_div (Fin x) _ = Fin 0"
| "js_div PInf (Fin y) = (if y < 0 then NInf else PInf)"
| "js_div NInf (Fin y) = (if y < 0 then PInf else NInf)"
| "js_div _ _ = NaN"

text \<open>\<open>a - b\<close>.\<close>

fun js_sub :: "number \<Rightarrow> number \<Rightarrow> number" where
  "js_sub NaN _ = NaN"
| "js_sub _ NaN = NaN"
| "js_sub (Fin x) (Fin y) = round64 (x - y)"
| "js_sub (Fin x) PInf = NInf"
| "js_sub (Fin x) NInf = PInf"
| "js_sub PInf PInf = NaN"
| "js_sub PInf _ = PInf"
| "js_sub NInf NInf = NaN"
| "js_sub NInf _ = NInf"

text \<open>\<open>a >= b\<close>, \<open>a > b\<close> and \<open>a < b\<close>: false as soon as one side is \<open>NaN\<close>.\<close>

fun js_ge :: "number \<Rightarrow> number \<Rightarrow> bool" where
  "js_ge NaN _ = False"
| "js_ge _ NaN = False"
| "js_ge (Fin x) (Fin y) = (y \<le> x)"
| "js_ge PInf _ = True"
| "js_ge _ NInf = True"
| "js_ge _ _ = False"

fun js_gt :: "number \<Rightarrow> number \<Rightarrow> bool" where
  "js_gt NaN _ = False"
| "js_gt _ NaN = False"
| "js_gt (Fin x) (Fin y) = (y < x)"
| "js_gt PInf PInf = False"
| "js_gt PInf _ = True"
| "js_gt NInf _ = False"
| "js_gt (Fin x) NInf = True"
| "js_gt (Fin x) PInf = False"

definition js_lt :: "number \<Rightarrow> number \<Rightarrow> bool" where
  "js_lt a b = js_gt b a"

text \<open>Every double is an integer multiple of the least positive double, \<open>2\<close> to the power
  \<open>-1074\<close>. A value of the type \<^typ>\<open>number\<close> that an operation has returned is such a
  multiple, an infinity or \<open>NaN\<close>.\<close>

definition onGrid :: "number \<Rightarrow> bool" where
  "onGrid a = (case a of Fin x \<Rightarrow> (\<exists>k::int. x = of_int k * 2 powr (- 1074)) | _ \<Rightarrow> True)"

text \<open>A number in a condition (\<open>x || d\<close>): zero and \<open>NaN\<close> are falsy.\<close>

fun truthy :: "number \<Rightarrow> bool" where
  "truthy (Fin x) = (x \<noteq> 0)"
| "truthy NaN = False"
| "truthy _ = True"

text \<open>A property of an options object: absent, present with the value \<open>undefined\<close>, or
  present with a value.\<close>

datatype 'a optional = Absent | Undefined | Given 'a

text \<open>The errors the core throws, one constructor per message, and the failures of the
  two external collaborators.\<close>

datatype error =
    VectorsMustHaveSameLength
  | CannotAverageEmpty
  | EmbeddingsMustHaveSameDimension
  | QueryCannotBeEmpty
  | QueryTooLong
  | LimitOutOfRange
  | MinSimilarityOutOfRange
  | DocumentNotFound string
  | ThrownUndefined
  | BackendError string
  | StorageError string

section \<open>Similarity calculator (packages/core/src/utils/similarity.ts)\<close>

text \<open>The loop of \<open>cosineSimilarity\<close>, carrying \<open>(dotProduct, normA, normB)\<close>.\<close>

fun cosineLoop ::
  "number list \<Rightarrow> number list \<Rightarrow> number \<times> number \<times> number \<Rightarrow> number \<times> number \<times> number" where
  "cosineLoop (x # xs) (y # ys) (dotProduct, normA, normB) =
     cosineLoop xs ys
       (js_add dotProduct (js_mul x y), js_add normA (js_mul x x), js_add normB (js_mul y y))"
| "cosineLoop _ _ acc = acc"

definition cosineSimilarity :: "number list \<Rightarrow> number list \<Rightarrow> error + number" where
  "cosineSimilarity vecA vecB =
     (if length vecA \<noteq> length vecB then Inl VectorsMustHaveSameLength
      else (case cosineLoop vecA vecB (Fin 0, Fin 0, Fin 0) of
              (dotProduct, normA, normB) \<Rightarrow>
                Inr (js_div dotProduct (js_mul (js_sqrt normA) (js_sqrt normB)))))"

text \<open>A vector of norm zero: every entry is zero.\<close>

definition zeroVector :: "number list \<Rightarrow> bool" where
  "zeroVector v = list_all (\<lambda>x. x = Fin 0) v"

text \<open>The summing loop of \<open>averageEmbeddings\<close>, with its dimension check.\<close>

fun sumEmbeddings :: "nat \<Rightarrow> number list list \<Rightarrow> number list \<Rightarrow> error + number list" where
  "sumEmbeddings dimension [] avgEmbedding = Inr avgEmbedding"
| "sumEmbeddings dimension (embedding # rest) avgEmbedding =
     (if length embedding \<noteq> dimension then Inl EmbeddingsMustHaveSameDimension
      else sumEmbeddings dimension rest (map2 js_add avgEmbedding embedding))"

definition averageEmbeddings :: "number list list \<Rightarrow> error + number list" where
  "averageEmbeddings embeddings =
     (case embeddings of
        [] \<Rightarrow> Inl CannotAverageEmpty
      | [e] \<Rightarrow> Inr e
      | e # _ \<Rightarrow>
          (case sumEmbeddings (length e) embeddings (replicate (length e) (Fin 0)) of
             Inl err \<Rightarrow> Inl err
           | Inr summed \<Rightarrow>
               Inr (map (\<lambda>x. js_div x (Fin (real (length embeddings)))) summed)))"

section \<open>Data model (packages/core/src/types/index.ts)\<close>

text \<open>A metadata value (\<open>any\<close> in the source).\<close>

datatype any = AString string | ANumber number | ABool bool | ANull | AUndefined

record Document =
  doc_id :: string
  doc_content :: string
  doc_metadata :: "string \<rightharpoonup> any"
  doc_embedding :: "number list option"

record SearchResult =
  res_id :: string
  res_content :: string
  res_metadata :: "string \<rightharpoonup> any"
  similarity :: number

record SearchOptions =
  limit :: "number optional"
  minSimilarity :: "number optional"
  includeMetadata :: "bool optional"

record EmbeddingConfig =
  model :: string
  maxCharsPerChunk :: nat
  cacheSize :: nat

record KnowledgeBaseConfig =
  collection :: string
  embeddingModel :: string
  maxCacheSize :: nat
  searchCacheTTL :: nat
  documentCacheTTL :: nat

text \<open>\<open>Partial<KnowledgeBaseConfig>\<close>: every field may be absent.\<close>

record PartialKnowledgeBaseConfig =
  p_collection :: "string option"
  p_embeddingModel :: "string option"
  p_maxCacheSize :: "nat option"
  p_searchCacheTTL :: "nat option"
  p_documentCacheTTL :: "nat option"

section \<open>The environment and the state\<close>

text \<open>
  The embedding backend and the document store are external. Every call to one of them
  is appended to a trace, and its answer is given by the environment as a function of
  the trace so far, so that the answers may differ from call to call and may be failures
  (\<open>Inl\<close> of the message, thrown as \<open>BackendError\<close> or \<open>StorageError\<close>).
  \<open>Date.now()\<close> is answered by the environment too, by the number of earlier readings.
  Readings of the clock that only feed log messages are not modelled, nor are the
  delays between calls.
\<close>

datatype call =
    EmbedContent string
  | GetDocument string
  | SaveDocument Document
  | GetAllDocuments

record env =
  md5hex :: "string \<Rightarrow> string"
  embedContent :: "call list \<Rightarrow> string \<Rightarrow> string + number list"
  storageGetDocument :: "call list \<Rightarrow> string \<Rightarrow> string + Document option"
  storageSaveDocument :: "call list \<Rightarrow> Document \<Rightarrow> string + string"
  storageGetAllDocuments :: "call list \<Rightarrow> string + Document list"
  dateNow :: "nat \<Rightarrow> int"
  toISOString :: "int \<Rightarrow> string"

text \<open>
  The key of a query-cache entry, \<open>search_<query>_<options as JSON>\<close> in the source, is
  kept as its components: the concatenation determines them. \<open>JSON.stringify\<close> writes a
  finite number as itself and an infinity or \<open>NaN\<close> as \<open>null\<close>. The \<open>documentCache\<close> map of
  the source holds the document list under \<open>all_documents\<close> and a number under each
  \<open><key>_timestamp\<close>; the model keeps the two kinds of entry in two fields.
\<close>

datatype json_number = JNumber real | JNull

fun toJSON :: "number \<Rightarrow> json_number" where
  "toJSON (Fin x) = JNumber x"
| "toJSON _ = JNull"

datatype search_key = SearchKey string json_number json_number bool

datatype timestamp_key = AllDocuments | Search search_key

record world =
  embeddingCache :: "(string \<times> number list) list"
  cachedDocuments :: "Document list option"
  cacheTimestamps :: "timestamp_key \<rightharpoonup> int"
  searchCache :: "search_key \<rightharpoonup> SearchResult list"
  trace :: "call list"
  clockReads :: nat

definition readClock :: "env \<Rightarrow> world \<Rightarrow> int \<times> world" where
  "readClock e w = (dateNow e (clockReads w), w\<lparr>clockReads := Suc (clockReads w)\<rparr>)"


section \<open>Embedding provider (packages/core/src/embeddings)\<close>

text \<open>One attempt at the backend: \<open>model.embedContent(text)\<close> raced against the 30 second
  timer. A timeout is one of the failures the environment may answer.\<close>

definition callBackend :: "env \<Rightarrow> string \<Rightarrow> world \<Rightarrow> (error + number list) \<times> world" where
  "callBackend e text w =
     (case embedContent e (trace w) text of
        Inl message \<Rightarrow> Inl (BackendError message)
      | Inr values \<Rightarrow> Inr values,
      w\<lparr>trace := trace w @ [EmbedContent text]\<rparr>)"

text \<open>\<open>retryWrapper\<close>: the first argument counts the attempts that are left, \<open>lastError\<close> is
  unassigned (\<open>None\<close>) until an attempt has failed.\<close>

fun retryLoop ::
  "nat \<Rightarrow> (world \<Rightarrow> (error + 'a) \<times> world) \<Rightarrow> error option \<Rightarrow> world \<Rightarrow> (error + 'a) \<times> world" where
  "retryLoop 0 operation lastError w =
     (Inl (case lastError of None \<Rightarrow> ThrownUndefined | Some err \<Rightarrow> err), w)"
| "retryLoop (Suc n) operation lastError w =
     (case operation w of
        (Inr v, w') \<Rightarrow> (Inr v, w')
      | (Inl err, w') \<Rightarrow> retryLoop n operation (Some err) w')"

definition retryWrapper ::
  "(world \<Rightarrow> (error + 'a) \<times> world) \<Rightarrow> nat \<Rightarrow> world \<Rightarrow> (error + 'a) \<times> world" where
  "retryWrapper operation maxRetries w = retryLoop maxRetries operation None w"

text \<open>\<open>GoogleEmbeddingProvider.generateSingleEmbedding\<close>, the one implementation of the
  abstract method: three attempts.\<close>

definition generateSingleEmbedding :: "env \<Rightarrow> string \<Rightarrow> world \<Rightarrow> (error + number list) \<times> world" where
  "generateSingleEmbedding e text w = retryWrapper (callBackend e text) 3 w"

text \<open>The loop over the chunks in \<open>generateMultiChunkEmbedding\<close>.\<close>

fun embedChunks ::
  "env \<Rightarrow> string list \<Rightarrow> number list list \<Rightarrow> world \<Rightarrow> (error + number list list) \<times> world" where
  "embedChunks e [] embeddings w = (Inr embeddings, w)"
| "embedChunks e (chunk # rest) embeddings w =
     (case generateSingleEmbedding e chunk w of
        (Inl chunkError, w') \<Rightarrow> (Inl chunkError, w')
      | (Inr chunkEmbedding, w') \<Rightarrow> embedChunks e rest (embeddings @ [chunkEmbedding]) w')"

definition generateMultiChunkEmbedding ::
  "env \<Rightarrow> EmbeddingConfig \<Rightarrow> string \<Rightarrow> world \<Rightarrow> ((error + number list) \<times> world) option" where
  "generateMultiChunkEmbedding e config text w =
     (case splitIntoChunks text (maxCharsPerChunk config) of
        None \<Rightarrow> None
      | Some chunks \<Rightarrow>
          Some (case embedChunks e chunks [] w of
                  (Inl err, w') \<Rightarrow> (Inl err, w')
                | (Inr embeddings, w') \<Rightarrow> (averageEmbeddings embeddings, w')))"

text \<open>\<open>manageCacheSize\<close>: the branch taken when the cache is over its size only writes a
  log line.\<close>

definition manageCacheSize :: "EmbeddingConfig \<Rightarrow> world \<Rightarrow> world" where
  "manageCacheSize config w =
     (if cacheSize config < length (embeddingCache w) then w else w)"

text \<open>\<open>generateEmbedding\<close>. The injected cache is a \<open>Map\<close>: an association list in
  insertion order, whose \<open>set\<close> is \<^const>\<open>AList.update\<close> and whose \<open>size\<close> is its length.
  \<open>None\<close> is the call that does not return.\<close>

definition generateEmbedding ::
  "env \<Rightarrow> EmbeddingConfig \<Rightarrow> string \<Rightarrow> world \<Rightarrow> ((error + number list) \<times> world) option" where
  "generateEmbedding e config text w =
     (let textHash = md5hex e text
      in case map_of (embeddingCache w) textHash of
           Some cached \<Rightarrow> Some (Inr cached, w)
         | None \<Rightarrow>
             (case (if length text \<le> maxCharsPerChunk config
                    then Some (generateSingleEmbedding e text w)
                    else generateMultiChunkEmbedding e config text w) of
                None \<Rightarrow> None
              | Some (Inl err, w') \<Rightarrow> Some (Inl err, w')
              | Some (Inr embedding, w') \<Rightarrow>
                  Some (Inr embedding,
                        manageCacheSize config
                          (w'\<lparr>embeddingCache :=
                               AList.update textHash embedding (embeddingCache w')\<rparr>))))"

section \<open>Search provider (packages/core/src/search)\<close>

text \<open>The default of \<open>minSimilarityThreshold\<close>, the literal \<open>0.1\<close>: the double nearest to one
  tenth. The functions below take the threshold of the provider as their argument
  \<open>threshold\<close>.\<close>

definition minSimilarityThreshold :: number where
  "minSimilarityThreshold = round64 (1 / 10)"

fun calculateSimilarities :: "number \<Rightarrow> number list \<Rightarrow> Document list \<Rightarrow> SearchResult list" where
  "calculateSimilarities threshold queryEmbedding [] = []"
| "calculateSimilarities threshold queryEmbedding (doc # docs) =
     (case doc_embedding doc of
        None \<Rightarrow> calculateSimilarities threshold queryEmbedding docs
      | Some embedding \<Rightarrow>
          (case cosineSimilarity queryEmbedding embedding of
             Inl err \<Rightarrow> calculateSimilarities threshold queryEmbedding docs
           | Inr sim \<Rightarrow>
               (if js_ge sim threshold
                then \<lparr>res_id = doc_id doc, res_content = doc_content doc,
                      res_metadata = doc_metadata doc, similarity = sim\<rparr>
                     # calculateSimilarities threshold queryEmbedding docs
                else calculateSimilarities threshold queryEmbedding docs)))"

text \<open>
  \<open>results.sort((a, b) => b.similarity - a.similarity)\<close>. \<open>Array.prototype.sort\<close> is
  stable and puts \<open>a\<close> after \<open>b\<close> when the comparator is positive; a \<open>NaN\<close> answer counts
  as zero. The model is the insertion sort with these two properties.
\<close>

definition compareSimilarity :: "SearchResult \<Rightarrow> SearchResult \<Rightarrow> number" where
  "compareSimilarity a b = js_sub (similarity b) (similarity a)"

fun insertResult :: "SearchResult \<Rightarrow> SearchResult list \<Rightarrow> SearchResult list" where
  "insertResult a [] = [a]"
| "insertResult a (b # bs) =
     (if js_gt (compareSimilarity a b) (Fin 0) then b # insertResult a bs else a # b # bs)"

definition sortResultsBySimilarity :: "SearchResult list \<Rightarrow> SearchResult list" where
  "sortResultsBySimilarity results = foldr insertResult results []"

text \<open>\<open>results.slice(0, n)\<close>: \<open>n\<close> is truncated towards zero, \<open>NaN\<close> counting as zero, and a
  negative \<open>n\<close> counts from the end.\<close>

definition truncate :: "real \<Rightarrow> int" where
  "truncate x = (if 0 \<le> x then \<lfloor>x\<rfloor> else \<lceil>x\<rceil>)"

fun slice0 :: "'a list \<Rightarrow> number \<Rightarrow> 'a list" where
  "slice0 xs NaN = []"
| "slice0 xs PInf = xs"
| "slice0 xs NInf = []"
| "slice0 xs (Fin n) =
     (let k = truncate n
      in if k < 0 then take (nat (int (length xs) + k)) xs else take (nat k) xs)"

text \<open>\<open>applySearchOptions\<close>: \<open>options.x !== undefined\<close> holds of a property that is present
  with a value.\<close>

definition applySearchOptions :: "SearchResult list \<Rightarrow> SearchOptions \<Rightarrow> SearchResult list" where
  "applySearchOptions results options =
     (let filtered =
            (case minSimilarity options of
               Given m \<Rightarrow> filter (\<lambda>result. js_ge (similarity result) m) results
             | _ \<Rightarrow> results);
          sorted = sortResultsBySimilarity filtered;
          limited = (case limit options of Given n \<Rightarrow> slice0 sorted n | _ \<Rightarrow> sorted)
      in if includeMetadata options = Given False
         then map (\<lambda>result. result\<lparr>res_metadata := Map.empty\<rparr>) limited
         else limited)"

text \<open>\<open>toLowerCase\<close> on the code units below 256: the letters A to Z and the Latin-1
  capitals.\<close>

definition toLowerChar :: "char \<Rightarrow> char" where
  "toLowerChar c =
     (let n = (of_char c :: nat)
      in if (65 \<le> n \<and> n \<le> 90) \<or> (192 \<le> n \<and> n \<le> 222 \<and> n \<noteq> 215)
         then char_of (n + 32) else c)"

definition toLowerCase :: "string \<Rightarrow> string" where
  "toLowerCase s = map toLowerChar s"

text \<open>\<open>createSearchCacheKey\<close>: \<open>x || d\<close> is \<open>d\<close> when \<open>x\<close> is absent, \<open>undefined\<close>, zero or
  \<open>NaN\<close>.\<close>

definition createSearchCacheKey :: "number \<Rightarrow> string \<Rightarrow> SearchOptions \<Rightarrow> search_key" where
  "createSearchCacheKey threshold query options =
     SearchKey (trim (toLowerCase query))
       (toJSON (case limit options of
                  Given n \<Rightarrow> if truthy n then n else Fin 5
                | _ \<Rightarrow> Fin 5))
       (toJSON (case minSimilarity options of
                  Given m \<Rightarrow> if truthy m then m else threshold
                | _ \<Rightarrow> threshold))
       (includeMetadata options \<noteq> Given False)"

definition validateQuery :: "string \<Rightarrow> error + unit" where
  "validateQuery query =
     (if query = [] \<or> length (trim query) = 0 then Inl QueryCannotBeEmpty
      else if 10000 < length query then Inl QueryTooLong
      else Inr ())"

definition validateOptions :: "SearchOptions \<Rightarrow> error + unit" where
  "validateOptions options =
     (case (case limit options of
              Given n \<Rightarrow>
                if js_lt n (Fin 1) \<or> js_gt n (Fin 100) then Inl LimitOutOfRange else Inr ()
            | _ \<Rightarrow> Inr ()) of
        Inl err \<Rightarrow> Inl err
      | Inr _ \<Rightarrow>
          (case minSimilarity options of
             Given m \<Rightarrow>
               if js_lt m (Fin 0) \<or> js_gt m (Fin 1) then Inl MinSimilarityOutOfRange
               else Inr ()
           | _ \<Rightarrow> Inr ()))"

text \<open>The one time-to-live of \<open>VectorSearchProvider\<close>, in milliseconds.\<close>

definition cacheTTL :: int where
  "cacheTTL = 30 * 60 * 1000"

text \<open>\<open>isCacheValid\<close>: the clock is read only when a non-zero timestamp is there.\<close>

definition isCacheValid :: "env \<Rightarrow> timestamp_key \<Rightarrow> world \<Rightarrow> bool \<times> world" where
  "isCacheValid e cacheKey w =
     (case cacheTimestamps w cacheKey of
        None \<Rightarrow> (False, w)
      | Some timestamp \<Rightarrow>
          (if timestamp = 0 then (False, w)
           else (case readClock e w of (now, w') \<Rightarrow> (now - timestamp < cacheTTL, w'))))"

definition setCacheTimestamp :: "env \<Rightarrow> timestamp_key \<Rightarrow> world \<Rightarrow> world" where
  "setCacheTimestamp e cacheKey w =
     (case readClock e w of
        (now, w') \<Rightarrow> w'\<lparr>cacheTimestamps := (cacheTimestamps w')(cacheKey \<mapsto> now)\<rparr>)"

definition fetchDocuments :: "env \<Rightarrow> world \<Rightarrow> (error + Document list) \<times> world" where
  "fetchDocuments e w =
     (let w1 = w\<lparr>trace := trace w @ [GetAllDocuments]\<rparr>
      in case storageGetAllDocuments e (trace w) of
           Inl message \<Rightarrow> (Inl (StorageError message), w1)
         | Inr documents \<Rightarrow>
             (let documentsWithEmbeddings = filter (\<lambda>doc. doc_embedding doc \<noteq> None) documents
              in (Inr documentsWithEmbeddings,
                  setCacheTimestamp e AllDocuments
                    (w1\<lparr>cachedDocuments := Some documentsWithEmbeddings\<rparr>))))"

definition getDocumentsWithCache :: "env \<Rightarrow> world \<Rightarrow> (error + Document list) \<times> world" where
  "getDocumentsWithCache e w =
     (case cachedDocuments w of
        None \<Rightarrow> fetchDocuments e w
      | Some documents \<Rightarrow>
          (case isCacheValid e AllDocuments w of
             (valid, w') \<Rightarrow> if valid then (Inr documents, w') else fetchDocuments e w'))"

text \<open>The part of \<open>searchSimilar\<close> after the look-up in the query cache has missed.\<close>

definition searchUncached ::
  "env \<Rightarrow> EmbeddingConfig \<Rightarrow> number \<Rightarrow> string \<Rightarrow> SearchOptions \<Rightarrow> world
     \<Rightarrow> ((error + SearchResult list) \<times> world) option" where
  "searchUncached e config threshold query options w =
     (case generateEmbedding e config query w of
        None \<Rightarrow> None
      | Some (Inl err, w1) \<Rightarrow> Some (Inl err, w1)
      | Some (Inr queryEmbedding, w1) \<Rightarrow>
          (case getDocumentsWithCache e w1 of
             (Inl err, w2) \<Rightarrow> Some (Inl err, w2)
           | (Inr documents, w2) \<Rightarrow>
               (let results = calculateSimilarities threshold queryEmbedding documents;
                    finalResults = applySearchOptions results options;
                    cacheKey = createSearchCacheKey threshold query options
                in Some (Inr finalResults,
                         setCacheTimestamp e (Search cacheKey)
                           (w2\<lparr>searchCache := (searchCache w2)(cacheKey \<mapsto> finalResults)\<rparr>)))))"

definition searchSimilar ::
  "env \<Rightarrow> EmbeddingConfig \<Rightarrow> number \<Rightarrow> string \<Rightarrow> SearchOptions \<Rightarrow> world
     \<Rightarrow> ((error + SearchResult list) \<times> world) option" where
  "searchSimilar e config threshold query options w =
     (case validateQuery query of
        Inl err \<Rightarrow> Some (Inl err, w)
      | Inr _ \<Rightarrow>
          (case validateOptions options of
             Inl err \<Rightarrow> Some (Inl err, w)
           | Inr _ \<Rightarrow>
               (let cacheKey = createSearchCacheKey threshold query options
                in case searchCache w cacheKey of
                     None \<Rightarrow> searchUncached e config threshold query options w
                   | Some cachedResults \<Rightarrow>
                       (case isCacheValid e (Search cacheKey) w of
                          (valid, w') \<Rightarrow>
                            if valid then Some (Inr cachedResults, w')
                            else searchUncached e config threshold query options w'))))"

definition invalidateDocumentCache :: "world \<Rightarrow> world" where
  "invalidateDocumentCache w =
     w\<lparr>cachedDocuments := None,
       cacheTimestamps := (cacheTimestamps w)(AllDocuments := None),
       searchCache := Map.empty\<rparr>"

section \<open>The facade (KnowledgeManagementSystem, src/unnamed/part_000)\<close>

text \<open>The constructor: the defaults, overridden by the fields that are given.\<close>

definition kmsConfig :: "PartialKnowledgeBaseConfig \<Rightarrow> KnowledgeBaseConfig" where
  "kmsConfig config =
     \<lparr>collection = (case p_collection config of None \<Rightarrow> ''knowledge_base'' | Some c \<Rightarrow> c),
      embeddingModel =
        (case p_embeddingModel config of None \<Rightarrow> ''text-embedding-004'' | Some m \<Rightarrow> m),
      maxCacheSize = (case p_maxCacheSize config of None \<Rightarrow> 100 | Some n \<Rightarrow> n),
      searchCacheTTL = (case p_searchCacheTTL config of None \<Rightarrow> 1800 | Some n \<Rightarrow> n),
      documentCacheTTL = (case p_documentCacheTTL config of None \<Rightarrow> 3600 | Some n \<Rightarrow> n)\<rparr>"

definition noOverrides :: PartialKnowledgeBaseConfig where
  "noOverrides =
     \<lparr>p_collection = None, p_embeddingModel = None, p_maxCacheSize = None,
      p_searchCacheTTL = None, p_documentCacheTTL = None\<rparr>"

text \<open>\<open>search\<close>: the options it passes down are \<open>{limit: 5, minSimilarity: 0.1,
  includeMetadata: true, ...options}\<close>. A property that is present in \<open>options\<close>, also with
  the value \<open>undefined\<close>, overrides the default.\<close>

definition searchDefaults :: "SearchOptions \<Rightarrow> SearchOptions" where
  "searchDefaults options =
     \<lparr>limit = (case limit options of Absent \<Rightarrow> Given (Fin 5) | given \<Rightarrow> given),
      minSimilarity =
        (case minSimilarity options of Absent \<Rightarrow> Given (round64 (1 / 10)) | given \<Rightarrow> given),
      includeMetadata =
        (case includeMetadata options of Absent \<Rightarrow> Given True | given \<Rightarrow> given)\<rparr>"

definition search ::
  "env \<Rightarrow> EmbeddingConfig \<Rightarrow> number \<Rightarrow> string \<Rightarrow> SearchOptions \<Rightarrow> world
     \<Rightarrow> ((error + SearchResult list) \<times> world) option" where
  "search e config threshold query options w =
     searchSimilar e config threshold query (searchDefaults options) w"

text \<open>\<open>updateDocument(id, content?, metadata?)\<close>. An absent argument is \<open>None\<close>; \<open>given\<close> is
  the content when it is truthy: the empty string is falsy, like an absent content.\<close>

definition updateDocument ::
  "env \<Rightarrow> EmbeddingConfig \<Rightarrow> string \<Rightarrow> string option \<Rightarrow> (string \<rightharpoonup> any) option \<Rightarrow> world
     \<Rightarrow> ((error + unit) \<times> world) option" where
  "updateDocument e config ident content metadata w =
     (let w1 = w\<lparr>trace := trace w @ [GetDocument ident]\<rparr>
      in case storageGetDocument e (trace w) ident of
           Inl message \<Rightarrow> Some (Inl (StorageError message), w1)
         | Inr None \<Rightarrow> Some (Inl (DocumentNotFound ident), w1)
         | Inr (Some existingDoc) \<Rightarrow>
             (let given = (case content of None \<Rightarrow> None | Some c \<Rightarrow> if c = [] then None else Some c);
                  updatedContent = (case given of None \<Rightarrow> doc_content existingDoc | Some c \<Rightarrow> c)
              in case readClock e w1 of
                   (now, w2) \<Rightarrow>
                     (let updatedMetadata =
                            (doc_metadata existingDoc
                               ++ (case metadata of None \<Rightarrow> Map.empty | Some m \<Rightarrow> m))
                              (''updatedAt'' \<mapsto> AString (toISOString e now))
                      in case (if (case given of None \<Rightarrow> False
                                   | Some c \<Rightarrow> c \<noteq> doc_content existingDoc)
                               then (case generateEmbedding e config updatedContent w2 of
                                       None \<Rightarrow> None
                                     | Some (Inl err, w3) \<Rightarrow> Some (Inl err, w3)
                                     | Some (Inr v, w3) \<Rightarrow> Some (Inr (Some v), w3))
                               else Some (Inr (doc_embedding existingDoc), w2)) of
                           None \<Rightarrow> None
                         | Some (Inl err, w3) \<Rightarrow> Some (Inl err, w3)
                         | Some (Inr embedding, w3) \<Rightarrow>
                             (let updatedDoc =
                                    \<lparr>doc_id = ident, doc_content = updatedContent,
                                     doc_metadata = updatedMetadata, doc_embedding = embedding\<rparr>;
                                  w4 = w3\<lparr>trace := trace w3 @ [SaveDocument updatedDoc]\<rparr>
                              in case storageSaveDocument e (trace w3) updatedDoc of
                                   Inl message \<Rightarrow> Some (Inl (StorageError message), w4)
                                 | Inr _ \<Rightarrow> Some (Inr (), invalidateDocumentCache w4)))))"


text \<open>The four errors of \<open>validateQuery\<close> and \<open>validateOptions\<close>.\<close>

fun isValidationError :: "error \<Rightarrow> bool" where
  "isValidationError QueryCannotBeEmpty = True"
| "isValidationError QueryTooLong = True"
| "isValidationError LimitOutOfRange = True"
| "isValidationError MinSimilarityOutOfRange = True"
| "isValidationError _ = False"

text \<open>The words of the specification: the query is empty or whitespace only, or longer
  than 10,000 characters, or the limit is given and not within \<open>[1, 100]\<close>, or the minimum
  similarity is given and not within \<open>[0, 1]\<close>.\<close>

definition inRange :: "number \<Rightarrow> real \<Rightarrow> real \<Rightarrow> bool" where
  "inRange x lo hi = (js_ge x (Fin lo) \<and> js_ge (Fin hi) x)"

definition spec_invalidInput :: "string \<Rightarrow> SearchOptions \<Rightarrow> bool" where
  "spec_invalidInput query options \<longleftrightarrow>
     list_all isWhitespace query
     \<or> 10000 < length query
     \<or> (case limit options of Given n \<Rightarrow> \<not> inRange n 1 100 | _ \<Rightarrow> False)
     \<or> (case minSimilarity options of Given m \<Rightarrow> \<not> inRange m 0 1 | _ \<Rightarrow> False)"

text \<open>No option is given as \<open>NaN\<close>.\<close>

definition noNaNOption :: "SearchOptions \<Rightarrow> bool" where
  "noNaNOption options \<longleftrightarrow> limit options \<noteq> Given NaN \<and> minSimilarity options \<noteq> Given NaN"

text \<open>The document that \<open>updateDocument\<close> is to save when the content is not replaced: the
  stored content and embedding, and the stored metadata overridden by the supplied fields
  and then by \<open>updatedAt\<close>, the time of the update.\<close>

definition expectedDocument ::
  "env \<Rightarrow> string \<Rightarrow> Document \<Rightarrow> (string \<rightharpoonup> any) option \<Rightarrow> world \<Rightarrow> Document" where
  "expectedDocument e ident existingDoc metadata w =
     \<lparr>doc_id = ident, doc_content = doc_content existingDoc,
      doc_metadata =
        (doc_metadata existingDoc ++ (case metadata of None \<Rightarrow> Map.empty | Some m \<Rightarrow> m))
          (''updatedAt'' \<mapsto> AString (toISOString e (dateNow e (clockReads w)))),
      doc_embedding = doc_embedding existingDoc\<rparr>"

text \<open>The results that survive the request's \<open>minSimilarity\<close> (the first step of
  \<open>applySearchOptions\<close>), and what "descending by similarity" means.\<close>

definition survivors :: "SearchResult list \<Rightarrow> SearchOptions \<Rightarrow> SearchResult list" where
  "survivors results options =
     (case minSimilarity options of
        Given m \<Rightarrow> filter (\<lambda>result. js_ge (similarity result) m) results
      | _ \<Rightarrow> results)"

definition descending :: "SearchResult list \<Rightarrow> bool" where
  "descending results = sorted_wrt (\<lambda>a b. js_ge (similarity a) (similarity b)) results"

section \<open>Test doubles\<close>

text \<open>An empty state, an environment whose backend and store are fixed, and a small
  configuration, for evaluating the functions on concrete inputs. The stand-in for the
  digest is the identity: distinct texts have distinct keys.\<close>

definition emptyWorld :: world where
  "emptyWorld =
     \<lparr>embeddingCache = [], cachedDocuments = None, cacheTimestamps = Map.empty,
      searchCache = Map.empty, trace = [], clockReads = 0\<rparr>"

definition stubEnv :: "(string \<Rightarrow> string + number list) \<Rightarrow> Document list \<Rightarrow> env" where
  "stubEnv backend documents =
     \<lparr>md5hex = (\<lambda>text. text),
      embedContent = (\<lambda>_. backend),
      storageGetDocument = (\<lambda>_ ident. Inr (find (\<lambda>doc. doc_id doc = ident) documents)),
      storageSaveDocument = (\<lambda>_ doc. Inr (doc_id doc)),
      storageGetAllDocuments = (\<lambda>_. Inr documents),
      dateNow = (\<lambda>n. 1000 + int n),
      toISOString = (\<lambda>_. ''2026-01-01T00:00:00.000Z'')\<rparr>"

definition failingOn :: "string \<Rightarrow> string \<Rightarrow> string + number list" where
  "failingOn bad text = (if text = bad then Inl ''unavailable'' else Inr [Fin 1, Fin 0])"

definition smallConfig :: "nat \<Rightarrow> nat \<Rightarrow> EmbeddingConfig" where
  "smallConfig chars entries =
     \<lparr>model = ''text-embedding-004'', maxCharsPerChunk = chars, cacheSize = entries\<rparr>"

definition noOptions :: SearchOptions where
  "noOptions = \<lparr>limit = Absent, minSimilarity = Absent, includeMetadata = Absent\<rparr>"

text \<open>Documents for the store, and the state after a first search for \<open>q\<close> on a store
  of one document, with the clock of the environment starting at 1000.\<close>

definition sampleDoc :: "string \<Rightarrow> number list \<Rightarrow> Document" where
  "sampleDoc name v =
     \<lparr>doc_id = name, doc_content = name, doc_metadata = Map.empty, doc_embedding = Some v\<rparr>"

definition sixDocuments :: "Document list" where
  "sixDocuments =
     map (\<lambda>name. sampleDoc name [Fin 1, Fin 0]) [''d1'', ''d2'', ''d3'', ''d4'', ''d5'', ''d6'']"

definition resultCount :: "((error + SearchResult list) \<times> world) option \<Rightarrow> nat option" where
  "resultCount outcome =
     (case outcome of Some (Inr results, _) \<Rightarrow> Some (length results) | _ \<Rightarrow> None)"

text \<open>The calls to the backend and to the store that a search has made.\<close>

definition callsOf :: "((error + SearchResult list) \<times> world) option \<Rightarrow> call list option" where
  "callsOf outcome = (case outcome of Some (_, w) \<Rightarrow> Some (trace w) | None \<Rightarrow> None)"

definition oneResult :: "SearchResult list" where
  "oneResult = [\<lparr>res_id = ''d1'', res_content = ''d1'', res_metadata = Map.empty,
                 similarity = Fin 1\<rparr>]"

definition defaultKey :: "string \<Rightarrow> search_key" where
  "defaultKey query = SearchKey query (JNumber 5) (toJSON minSimilarityThreshold) True"

definition afterFirstSearch :: world where
  "afterFirstSearch =
     \<lparr>embeddingCache = [(''q'', [Fin 1, Fin 0])],
      cachedDocuments = Some [sampleDoc ''d1'' [Fin 1, Fin 0]],
      cacheTimestamps = [AllDocuments \<mapsto> 1000, Search (defaultKey ''q'') \<mapsto> 1001],
      searchCache = [defaultKey ''q'' \<mapsto> oneResult],
      trace = [EmbedContent ''q'', GetAllDocuments],
      clockReads = 2\<rparr>"

text \<open>The documents that were passed to \<open>saveDocument\<close>, read off the trace, and a stored
  document.\<close>

fun savedDocuments :: "call list \<Rightarrow> Document list" where
  "savedDocuments [] = []"
| "savedDocuments (SaveDocument doc # calls) = doc # savedDocuments calls"
| "savedDocuments (_ # calls) = savedDocuments calls"

definition savedBy :: "((error + unit) \<times> world) option \<Rightarrow> Document list" where
  "savedBy outcome = (case outcome of None \<Rightarrow> [] | Some (_, w) \<Rightarrow> savedDocuments (trace w))"

definition storedDoc :: Document where
  "storedDoc =
     \<lparr>doc_id = ''d1'', doc_content = ''hello'',
      doc_metadata = [''timestamp'' \<mapsto> AString ''2025-01-01T00:00:00.000Z''],
      doc_embedding = Some [Fin 1, Fin 0]\<rparr>"

text \<open>Documents at different angles to the query vector \<open>[1, 0]\<close>, with the cosines 0, 1,
  -1 and 1, and options that give a limit only.\<close>

definition resultIds :: "((error + SearchResult list) \<times> world) option \<Rightarrow> string list option" where
  "resultIds outcome =
     (case outcome of Some (Inr results, _) \<Rightarrow> Some (map res_id results) | _ \<Rightarrow> None)"

definition rankedDocuments :: "Document list" where
  "rankedDocuments =
     [sampleDoc ''a'' [Fin 0, Fin 1], sampleDoc ''b'' [Fin 1, Fin 0],
      sampleDoc ''c'' [Fin (- 1), Fin 0], sampleDoc ''b2'' [Fin 2, Fin 0]]"

definition limitOnly :: "number \<Rightarrow> SearchOptions" where
  "limitOnly n = \<lparr>limit = Given n, minSimilarity = Absent, includeMetadata = Absent\<rparr>"

text \<open>A number whose square is below the least positive double, and the document that
  has it for its embedding.\<close>

definition tiny :: real where
  "tiny = 1 / 2 ^ 600"

definition tinyDoc :: Document where
  "tinyDoc = sampleDoc ''tiny'' [Fin tiny]"

definition zeroDoc :: Document where
  "zeroDoc = sampleDoc ''zero'' [Fin 0, Fin 0]"

text \<open>A second search, on the state that a first one has left.\<close>

definition thenSearch ::
  "((error + SearchResult list) \<times> world) option \<Rightarrow> env \<Rightarrow> EmbeddingConfig \<Rightarrow> number \<Rightarrow> string
     \<Rightarrow> SearchOptions \<Rightarrow> ((error + SearchResult list) \<times> world) option" where
  "thenSearch outcome e config threshold query options =
     (case outcome of
        None \<Rightarrow> None
      | Some (_, w) \<Rightarrow> searchSimilar e config threshold query options w)"

section \<open>Properties of the numbers\<close>

text \<open>Rounding: the integers below \<open>2\<close> to the power 53 and the powers of two are doubles, one
  tenth is not, and a positive number below half the least subnormal rounds to zero.\<close>

lemma round64_not_NaN: "round64 x \<noteq> NaN"
  by (simp add: round64_def Let_def)

lemma round64_zero: "round64 0 = Fin 0"
  by (simp add: round64_def)

lemma roundHalfEven_of_int: "roundHalfEven (of_int n) = n"
  by (simp add: roundHalfEven_def)

lemma round64_of_int:
  assumes "\<bar>k\<bar> < 2 ^ 53"
  shows "round64 (of_int k) = Fin (of_int k)"
proof (cases "k = 0")
  case True
  then show ?thesis by (simp add: round64_def)
next
  case False
  let ?x = "of_int k :: real"
  let ?e = "\<lfloor>log 2 \<bar>?x\<bar>\<rfloor>"
  have x1: "1 \<le> \<bar>?x\<bar>" using False by (simp flip: of_int_abs)
  have x2: "\<bar>?x\<bar> < 2 ^ 53" using assms by (metis of_int_abs of_int_less_numeral_power_cancel_iff)
  have e0: "0 \<le> ?e" using x1 by simp
  have "log 2 \<bar>?x\<bar> < 53"
    using x1 x2 by (simp add: log_less_iff powr_realpow flip: of_int_abs)
  then have e52: "?e \<le> 52" by linarith
  define d where "d = nat (52 - ?e)"
  have ulp: "(2::real) powr (of_int (max ?e (- 1022)) - 52) = 1 / 2 ^ d"
  proof -
    have "max ?e (- 1022) = ?e" using e0 by simp
    moreover have "(of_int ?e :: real) - 52 = - real d" using e52 by (simp add: d_def)
    ultimately have "(2::real) powr (of_int (max ?e (- 1022)) - 52) = 2 powr (- real d)"
      by simp
    also have "\<dots> = 1 / 2 ^ d"
      by (simp add: powr_minus_divide powr_realpow)
    finally show ?thesis .
  qed
  have m: "?x / (1 / 2 ^ d) = of_int (k * 2 ^ d)" by simp
  have r: "of_int (roundHalfEven (?x / (1 / 2 ^ d))) * (1 / 2 ^ d) = ?x"
    unfolding m roundHalfEven_of_int by simp
  have "(2::real) ^ 53 \<le> 2 ^ 1024" by (rule power_increasing) simp_all
  with x2 have big: "\<not> (2 ^ 1024 \<le> \<bar>?x\<bar>)" by linarith
  show ?thesis
    using False big unfolding round64_def Let_def ulp r by simp
qed

lemma round64_numeral: "round64 1 = Fin 1" "round64 2 = Fin 2" "round64 4 = Fin 4"
  "round64 (- 1) = Fin (- 1)" "round64 (- 2) = Fin (- 2)"
  using round64_of_int[of 1] round64_of_int[of 2] round64_of_int[of 4] round64_of_int[of "- 1"]
    round64_of_int[of "- 2"]
  by simp_all


lemma floor_log2:
  assumes "2 powr of_int e \<le> \<bar>x\<bar>" "\<bar>x\<bar> < 2 powr (of_int e + 1)"
  shows "\<lfloor>log 2 \<bar>x\<bar>\<rfloor> = e"
proof -
  have pos: "0 < \<bar>x\<bar>" using assms(1) by (smt (verit) powr_gt_zero)
  have "of_int e \<le> log 2 \<bar>x\<bar>" using assms(1) pos by (simp add: le_log_iff)
  moreover have "log 2 \<bar>x\<bar> < of_int e + 1" using assms(2) pos by (simp add: log_less_iff)
  ultimately show ?thesis by linarith
qed

lemma round64_normal:
  assumes "2 powr of_int e \<le> \<bar>x\<bar>" "\<bar>x\<bar> < 2 powr (of_int e + 1)" "- 1022 \<le> e"
      and "of_int (roundHalfEven (x / 2 powr (of_int e - 52))) * 2 powr (of_int e - 52) = r"
      and "\<bar>r\<bar> < 2 ^ 1024"
  shows "round64 x = Fin r"
proof -
  have "x \<noteq> 0" using assms(1) by (smt (verit) powr_gt_zero)
  moreover have "max \<lfloor>log 2 \<bar>x\<bar>\<rfloor> (- 1022) = e"
    using floor_log2[OF assms(1,2)] assms(3) by simp
  ultimately show ?thesis
    using assms(4,5) by (simp add: round64_def Let_def)
qed

lemma round64_underflow:
  assumes "0 < x" "x < 2 powr (- 1075)"
  shows "round64 x = Fin 0"
proof -
  have "log 2 \<bar>x\<bar> < - 1075"
    using assms by (simp add: log_less_iff)
  then have "\<lfloor>log 2 \<bar>x\<bar>\<rfloor> \<le> - 1022" by linarith
  then have e: "max \<lfloor>log 2 \<bar>x\<bar>\<rfloor> (- 1022) = - 1022" by simp
  let ?ulp = "(2::real) powr (- 1074)"
  have "x / ?ulp < 2 powr (- 1075) / ?ulp"
    using assms(2) by (simp add: divide_strict_right_mono)
  also have "\<dots> = 2 powr (- 1075 - (- 1074))"
    by (simp only: powr_diff)
  also have "\<dots> = 2 powr (- 1)"
    by (simp only: diff_minus_eq_add) simp
  also have "\<dots> = 1 / 2"
    by (simp add: powr_minus_divide)
  finally have lt: "x / ?ulp < 1 / 2" .
  have ge: "0 < x / ?ulp" using assms(1) by simp
  have "\<lfloor>x / ?ulp\<rfloor> = 0" using lt ge by linarith
  then have "roundHalfEven (x / ?ulp) = 0"
    using lt by (simp add: roundHalfEven_def Let_def)
  then show ?thesis
    using assms(1) e by (simp add: round64_def Let_def)
qed

lemma inverse_pow2: "1 / 2 ^ n = (2::real) powr (- real n)"
  by (simp add: powr_minus_divide powr_realpow)

lemma round64_pow2_underflow:
  assumes "1075 < n"
  shows "round64 (1 / 2 ^ n) = Fin 0"
proof (rule round64_underflow)
  show "0 < 1 / (2::real) ^ n" by simp
  have "- real n < - 1075" using assms by simp
  then show "1 / 2 ^ n < (2::real) powr (- 1075)"
    unfolding inverse_pow2 by simp
qed

lemma round64_tenth: "round64 (1 / 10) = Fin (3602879701896397 / 36028797018963968)"
proof (rule round64_normal[where e = "- 4"])
  have p4: "(2::real) powr (- 4) = 1 / 16" using powr_realpow[of "2::real" 4] by (simp add: powr_minus_divide)
  have p3: "(2::real) powr (- 3) = 1 / 8" using powr_realpow[of "2::real" 3] by (simp add: powr_minus_divide)
  show "2 powr of_int (- 4) \<le> \<bar>1 / 10 :: real\<bar>" using p4 by simp
  show "\<bar>1 / 10 :: real\<bar> < 2 powr (of_int (- 4) + 1)" using p3 by simp
  show "- 1022 \<le> (- 4 :: int)" by simp
  have u: "(2::real) powr (of_int (- 4) - 52) = 1 / 72057594037927936"
    using powr_realpow[of "2::real" 56] by (simp add: powr_minus_divide)
  have "roundHalfEven (72057594037927936 / 10) = 7205759403792794"
    by (simp add: roundHalfEven_def Let_def)
  then show "real_of_int (roundHalfEven (1 / 10 / 2 powr (of_int (- 4) - 52)))
               * 2 powr (of_int (- 4) - 52)
        = 3602879701896397 / 36028797018963968"
    unfolding u by simp
  have "(1::real) \<le> 2 ^ 1024" by (rule one_le_power) simp
  then show "\<bar>3602879701896397 / 36028797018963968 :: real\<bar> < 2 ^ 1024" by simp
qed

lemma round64_pow2:
  assumes "n \<le> 1022"
  shows "round64 (1 / 2 ^ n) = Fin (1 / 2 ^ n)"
proof (rule round64_normal[where e = "- int n"])
  let ?x = "1 / 2 ^ n :: real"
  have x: "?x = 2 powr (- real n)"
    by (simp add: powr_minus_divide powr_realpow)
  show "2 powr of_int (- int n) \<le> \<bar>?x\<bar>" using x by simp
  have "2 powr (- real n) < (2::real) powr (- real n + 1)" by simp
  then show "\<bar>?x\<bar> < 2 powr (of_int (- int n) + 1)" using x by simp
  show "- 1022 \<le> - int n" using assms by simp
  have "?x / 2 powr (of_int (- int n) - 52) = 2 powr (- real n - (- real n - 52))"
    unfolding x by (simp only: powr_diff [symmetric] of_int_minus of_int_of_nat_eq)
  also have "\<dots> = of_int (2 ^ 52)"
    using powr_realpow[of "2::real" 52] by simp
  finally have m: "?x / 2 powr (of_int (- int n) - 52) = of_int (2 ^ 52)" .
  have "of_int (2 ^ 52) * 2 powr (of_int (- int n) - 52) = 2 powr 52 * 2 powr (- real n - 52)"
    using powr_realpow[of "2::real" 52] by simp
  also have "\<dots> = 2 powr (- real n)"
    by (simp only: powr_add [symmetric]) simp
  finally have "of_int (roundHalfEven (of_int (2 ^ 52))) * 2 powr (of_int (- int n) - 52) = ?x"
    unfolding roundHalfEven_of_int x .
  then show "of_int (roundHalfEven (?x / 2 powr (of_int (- int n) - 52))) * 2 powr (of_int (- int n) - 52) = ?x"
    unfolding m .
  have "?x \<le> 1" by simp
  moreover have "(1::real) < 2 ^ 1024" by (rule one_less_power) simp_all
  moreover have "0 \<le> ?x" by simp
  ultimately show "\<bar>?x\<bar> < 2 ^ 1024" by linarith
qed

lemma tiny_positive: "0 < tiny"
  by (simp add: tiny_def)

lemma round64_tiny: "round64 tiny = Fin tiny" "round64 (tiny * tiny) = Fin 0"
proof -
  show "round64 tiny = Fin tiny"
    unfolding tiny_def by (rule round64_pow2) simp
  have "(1 / 2 ^ n) * (1 / 2 ^ n) = 1 / (2::real) ^ (n + n)" for n
    by (simp add: power_add)
  then have "tiny * tiny = 1 / 2 ^ (600 + 600)"
    unfolding tiny_def .
  moreover have "round64 (1 / 2 ^ (600 + 600)) = Fin 0"
    by (rule round64_pow2_underflow) simp
  ultimately show "round64 (tiny * tiny) = Fin 0" by (simp only:)
qed

text \<open>The sign of a rounded difference of two doubles is the sign of the exact
  difference: with the subnormal numbers, no difference of two doubles rounds to zero.\<close>

lemma roundHalfEven_bounds: "\<lfloor>m\<rfloor> \<le> roundHalfEven m" "roundHalfEven m \<le> \<lfloor>m\<rfloor> + 1"
  by (simp_all add: roundHalfEven_def Let_def)

lemma round64_onGrid: "onGrid (round64 x)"
proof (cases "x = 0")
  case True
  then show ?thesis by (simp add: round64_def onGrid_def)
next
  case False
  define e where "e = max \<lfloor>log 2 \<bar>x\<bar>\<rfloor> (- 1022)"
  define m where "m = roundHalfEven (x / 2 powr (of_int e - 52))"
  have e: "- 1022 \<le> e" by (simp add: e_def)
  have "(2::real) powr (of_int e - 52) = 2 powr (real (nat (e + 1022)) + (- 1074))"
    using e by simp
  also have "\<dots> = 2 ^ nat (e + 1022) * 2 powr (- 1074)"
    by (simp only: powr_add powr_realpow zero_less_numeral)
  finally have "of_int m * 2 powr (of_int e - 52)
      = of_int (m * 2 ^ nat (e + 1022)) * (2::real) powr (- 1074)"
    by simp
  then have "\<exists>k::int. of_int m * 2 powr (of_int e - 52) = of_int k * (2::real) powr (- 1074)"
    by blast
  then show ?thesis
    using False by (simp add: round64_def Let_def onGrid_def e_def m_def)
qed

lemma round64_unfold:
  assumes "x \<noteq> 0" and "ulp = 2 powr (of_int (max \<lfloor>log 2 \<bar>x\<bar>\<rfloor> (- 1022)) - 52)"
      and "r = of_int (roundHalfEven (x / ulp)) * ulp"
  shows "round64 x = (if 2 ^ 1024 \<le> \<bar>r\<bar> then (if 0 < x then PInf else NInf) else Fin r)"
  using assms by (simp only: round64_def Let_def if_False)

lemma round64_nonpositive:
  assumes "x \<le> 0"
  shows "\<not> js_gt (round64 x) (Fin 0)"
proof (cases "x = 0")
  case True
  then show ?thesis by (simp add: round64_def)
next
  case False
  with assms have neg: "x < 0" by simp
  define ulp where "ulp = (2::real) powr (of_int (max \<lfloor>log 2 \<bar>x\<bar>\<rfloor> (- 1022)) - 52)"
  define r where "r = of_int (roundHalfEven (x / ulp)) * ulp"
  have u: "0 < ulp" by (simp add: ulp_def)
  have "x / ulp < 0" using neg u by (simp add: divide_neg_pos)
  then have "\<lfloor>x / ulp\<rfloor> + 1 \<le> 0" by linarith
  with roundHalfEven_bounds(2)[of "x / ulp"] have "roundHalfEven (x / ulp) \<le> 0" by linarith
  then have "r \<le> 0"
    using u by (simp add: r_def mult_le_0_iff)
  then show ?thesis
    unfolding round64_unfold[OF False ulp_def r_def] using neg by simp
qed

lemma round64_positive:
  assumes pos: "0 < x" and grid: "x = of_int k * 2 powr (- 1074)"
  shows "js_gt (round64 x) (Fin 0)"
proof -
  define e where "e = max \<lfloor>log 2 \<bar>x\<bar>\<rfloor> (- 1022)"
  define ulp where "ulp = (2::real) powr (of_int e - 52)"
  define r where "r = of_int (roundHalfEven (x / ulp)) * ulp"
  have u: "0 < ulp" by (simp add: ulp_def)
  have "1 \<le> x / ulp"
  proof (cases "- 1022 \<le> \<lfloor>log 2 \<bar>x\<bar>\<rfloor>")
    case True
    then have "of_int e \<le> log 2 x" using pos by (simp add: e_def max_def)
    then have "2 powr of_int e \<le> x" using pos by (simp add: le_log_iff)
    moreover have "ulp \<le> 2 powr of_int e" by (simp add: ulp_def)
    ultimately have "ulp \<le> x" by linarith
    then show ?thesis using u by simp
  next
    case False
    then have "e = - 1022" by (simp add: e_def max_def)
    then have ulp: "ulp = 2 powr (- 1074)" by (simp add: ulp_def)
    from pos grid have "0 < (of_int k :: real)"
      by (simp add: zero_less_mult_iff)
    then have "1 \<le> k" by simp
    then have "(1::real) \<le> of_int k" by simp
    then show ?thesis unfolding ulp grid by simp
  qed
  then have "1 \<le> \<lfloor>x / ulp\<rfloor>" by linarith
  with roundHalfEven_bounds(1)[of "x / ulp"] have "1 \<le> roundHalfEven (x / ulp)" by linarith
  then have "(1::real) \<le> of_int (roundHalfEven (x / ulp))" by simp
  then have "0 < r"
    using u by (simp add: r_def zero_less_mult_iff)
  moreover have "x \<noteq> 0" using pos by simp
  ultimately show ?thesis
    unfolding round64_unfold[OF \<open>x \<noteq> 0\<close> ulp_def[unfolded e_def] r_def] using pos by simp
qed

lemma js_gt_sub:
  assumes "onGrid a" "onGrid b"
  shows "js_gt (js_sub b a) (Fin 0) \<longleftrightarrow> js_gt b a"
proof (cases a; cases b; (simp; fail)?)
  fix x y
  assume a: "a = Fin x" and b: "b = Fin y"
  from assms(1,2) obtain k l :: int where
    x: "x = of_int k * 2 powr (- 1074)" and y: "y = of_int l * 2 powr (- 1074)"
    by (auto simp: onGrid_def a b)
  have d: "y - x = of_int (l - k) * 2 powr (- 1074)"
    by (simp add: x y algebra_simps)
  show ?thesis
  proof (cases "x < y")
    case True
    then have "js_gt (round64 (y - x)) (Fin 0)"
      by (intro round64_positive[OF _ d]) simp
    with True show ?thesis by (simp add: a b)
  next
    case False
    then have "\<not> js_gt (round64 (y - x)) (Fin 0)"
      by (intro round64_nonpositive) simp
    with False show ?thesis by (simp add: a b)
  qed
qed

lemma js_gt_sub_self: "\<not> js_gt (js_sub a a) (Fin 0)"
  by (cases a) (simp_all add: round64_zero)

lemma minSimilarityThreshold_value:
  "minSimilarityThreshold = Fin (3602879701896397 / 36028797018963968)"
  by (simp add: minSimilarityThreshold_def round64_tenth)

section \<open>Properties of the text splitter\<close>

lemma lastIndexOf_le: "lastIndexOf s c i \<le> int i"
  by (induction i) auto

lemma lastIndexOf_lt_length: "lastIndexOf s c i + 1 \<le> int (length s)"
  by (induction i) (auto simp: Suc_le_eq)

lemma nextEndPos_gt:
  assumes "currentPos < length text" "0 < maxChars"
  shows "currentPos < nextEndPos text maxChars currentPos"
  using assms by (auto simp: nextEndPos_def Let_def)

lemma nextEndPos_le_length: "nextEndPos text maxChars currentPos \<le> length text"
proof -
  have "\<And>c i. nat (lastIndexOf text c i + 1) \<le> length text"
    using lastIndexOf_lt_length[of "text"] by (simp add: nat_le_iff)
  then show ?thesis
    by (auto simp: nextEndPos_def Let_def max_def)
qed

text \<open>With a positive \<open>maxChars\<close> the loop returns.\<close>

lemma splitLoop_total:
  assumes "0 < maxChars"
  shows "\<exists>result. splitLoop text maxChars currentPos chunks = Some result"
proof (induction "length text - currentPos" arbitrary: currentPos chunks rule: less_induct)
  case less
  show ?case
  proof (cases "currentPos < length text")
    case False
    then show ?thesis by (subst splitLoop.simps) simp
  next
    case True
    let ?endPos = "nextEndPos text maxChars currentPos"
    have "length text - ?endPos < length text - currentPos"
      using True nextEndPos_gt[OF True assms] nextEndPos_le_length[of "text" maxChars currentPos]
      by linarith
    from less[OF this] show ?thesis
      using True by (subst splitLoop.simps) (simp add: Let_def)
  qed
qed

lemma all_dropWhile_iff: "(\<forall>x\<in>set (dropWhile P s). P x) \<longleftrightarrow> (\<forall>x\<in>set s. P x)"
  by (induction s) auto

lemma trim_eq_Nil_iff: "trim s = [] \<longleftrightarrow> (\<forall>c\<in>set s. isWhitespace c)"
  by (simp add: trim_def all_dropWhile_iff)

lemma set_substring: "set (substring s a b) \<subseteq> set s"
  unfolding substring_def Let_def
  by (meson set_drop_subset set_take_subset subset_trans)

text \<open>On a text of whitespace only, every chunk is trimmed to nothing and dropped.\<close>

lemma splitLoop_whitespace:
  assumes "0 < maxChars" "\<forall>c\<in>set text. isWhitespace c"
  shows "splitLoop text maxChars currentPos chunks = Some chunks"
proof (induction "length text - currentPos" arbitrary: currentPos rule: less_induct)
  case less
  show ?case
  proof (cases "currentPos < length text")
    case False
    then show ?thesis by (subst splitLoop.simps) simp
  next
    case True
    let ?endPos = "nextEndPos text maxChars currentPos"
    have "length text - ?endPos < length text - currentPos"
      using True nextEndPos_gt[OF True assms(1)]
        nextEndPos_le_length[of "text" maxChars currentPos]
      by linarith
    from less[OF this] have "splitLoop text maxChars ?endPos chunks = Some chunks" .
    moreover have "trim (substring text currentPos ?endPos) = []"
      using assms(2) set_substring[of "text" currentPos ?endPos]
      by (simp add: trim_eq_Nil_iff subset_iff)
    ultimately show ?thesis
      using True by (subst splitLoop.simps) (simp add: Let_def)
  qed
qed

text \<open>The cut: either the hard cut at \<open>currentPos + maxChars\<close>, or one past a boundary
  character that lies beyond \<open>currentPos + 0.8 * maxChars\<close>, which may be the character at
  \<open>currentPos + maxChars\<close> itself.\<close>

lemma lastIndexOf_found:
  "0 \<le> lastIndexOf s c i \<Longrightarrow> s ! nat (lastIndexOf s c i) = c"
  by (induction i) (auto simp: nat_add_distrib split: if_splits)

lemma nextEndPos_cut:
  assumes "currentPos + maxChars < length text"
  shows "nextEndPos text maxChars currentPos = currentPos + maxChars
         \<or> (\<exists>cut. 5 * cut > 5 * int currentPos + 4 * int maxChars
                   \<and> cut \<le> int (currentPos + maxChars)
                   \<and> isBoundary (text ! nat cut)
                   \<and> nextEndPos text maxChars currentPos = nat (cut + 1))"
proof -
  let ?endPos = "currentPos + maxChars"
  let ?p = "lastIndexOf text period ?endPos"
  let ?n = "lastIndexOf text newline ?endPos"
  let ?s = "lastIndexOf text space ?endPos"
  let ?best = "max (max ?p ?n) ?s"
  show ?thesis
  proof (cases "5 * ?best > 5 * int currentPos + 4 * int maxChars")
    case False
    with assms show ?thesis by (simp add: nextEndPos_def Let_def min_def)
  next
    case True
    then have nonneg: "0 \<le> ?best" by linarith
    have le: "?best \<le> int ?endPos"
      using lastIndexOf_le[of "text" period ?endPos] lastIndexOf_le[of "text" newline ?endPos]
        lastIndexOf_le[of "text" space ?endPos] by simp
    have "?best = ?p \<or> ?best = ?n \<or> ?best = ?s" by (auto simp: max_def)
    with nonneg have "isBoundary (text ! nat ?best)"
      using lastIndexOf_found[of "text" period ?endPos] lastIndexOf_found[of "text" newline ?endPos]
        lastIndexOf_found[of "text" space ?endPos]
      by (auto simp: isBoundary_def)
    moreover have "nextEndPos text maxChars currentPos = nat (?best + 1)"
      using assms True by (simp add: nextEndPos_def Let_def min_def)
    ultimately show ?thesis using True le by blast
  qed
qed

lemma nextEndPos_le_window: "nextEndPos text maxChars currentPos \<le> currentPos + maxChars + 1"
proof (cases "currentPos + maxChars < length text")
  case True
  from nextEndPos_cut[OF True] show ?thesis by auto
next
  case False
  then show ?thesis by (simp add: nextEndPos_def Let_def min_def)
qed

text \<open>With \<open>maxChars = 0\<close> the loop does not return on a text that has characters left.\<close>

lemma nextEndPos_zero: "currentPos < length text \<Longrightarrow> nextEndPos text 0 currentPos = currentPos"
  using lastIndexOf_le[of "text" _ currentPos]
  by (auto simp: nextEndPos_def Let_def max_def dest: leD)

lemma splitLoop_zero_Some:
  assumes "splitLoop str maxChars currentPos chunks = Some res"
  shows "maxChars = 0 \<longrightarrow> length str \<le> currentPos"
proof (rule splitLoop.raw_induct
    [where P = "\<lambda>s m c ch r. m = 0 \<longrightarrow> length s \<le> c", OF _ assms])
  fix loop :: "string \<Rightarrow> nat \<Rightarrow> nat \<Rightarrow> string list \<Rightarrow> string list option"
  fix s m c ch r
  assume IH: "\<And>s m c ch r. loop s m c ch = Some r \<Longrightarrow> m = 0 \<longrightarrow> length s \<le> c"
    and step: "(if c < length s
          then let endPos = nextEndPos s m c;
                   chunk = trim (substring s c endPos)
               in loop s m endPos (if 0 < length chunk then ch @ [chunk] else ch)
          else Some ch) = Some r"
  show "m = 0 \<longrightarrow> length s \<le> c"
  proof (intro impI, rule ccontr)
    assume z: "m = 0" and "\<not> length s \<le> c"
    then have lt: "c < length s" by simp
    with step z have "loop s 0 c
        (if 0 < length (trim (substring s c c))
         then ch @ [trim (substring s c c)] else ch) = Some r"
      by (simp add: Let_def nextEndPos_zero)
    from IH[OF this] lt show False by simp
  qed
qed

lemma splitLoop_zero: "currentPos < length text \<Longrightarrow> splitLoop text 0 currentPos chunks = None"
  using splitLoop_zero_Some[of "text" 0 currentPos chunks]
  by (cases "splitLoop text 0 currentPos chunks") auto

text \<open>No chunk is longer than \<open>maxChars + 1\<close>.\<close>

lemma length_trim_le: "length (trim s) \<le> length s"
  unfolding trim_def
  by (metis length_dropWhile_le length_rev order_trans)

lemma length_substring: "a \<le> b \<Longrightarrow> length (substring s a b) \<le> b - a"
  by (auto simp: substring_def Let_def min_def max_def)

lemma splitLoop_chunk_bound:
  assumes "splitLoop text maxChars currentPos chunks = Some result"
      and "\<forall>c\<in>set chunks. length c \<le> maxChars + 1"
  shows "\<forall>c\<in>set result. length c \<le> maxChars + 1"
  using assms
proof (induction "length text - currentPos" arbitrary: currentPos chunks rule: less_induct)
  case less
  show ?case
  proof (cases "currentPos < length text")
    case False
    with less.prems show ?thesis by (subst (asm) splitLoop.simps) simp
  next
    case True
    let ?endPos = "nextEndPos text maxChars currentPos"
    let ?chunk = "trim (substring text currentPos ?endPos)"
    let ?chunks = "if 0 < length ?chunk then chunks @ [?chunk] else chunks"
    have pos: "0 < maxChars"
    proof (rule ccontr)
      assume "\<not> 0 < maxChars"
      then have "maxChars = 0" by simp
      with True less.prems(1) splitLoop_zero[OF True, of chunks] show False by simp
    qed
    have step: "splitLoop text maxChars ?endPos ?chunks = Some result"
      using less.prems(1) True by (subst (asm) splitLoop.simps) (simp add: Let_def)
    have gt: "currentPos < ?endPos" by (rule nextEndPos_gt[OF True pos])
    have "length ?chunk \<le> ?endPos - currentPos"
      using length_trim_le[of "substring text currentPos ?endPos"]
        length_substring[of currentPos ?endPos "text"] gt by linarith
    also have "\<dots> \<le> maxChars + 1"
      using nextEndPos_le_window[of "text" maxChars currentPos] by linarith
    finally have "\<forall>c\<in>set ?chunks. length c \<le> maxChars + 1"
      using less.prems(2) by auto
    moreover have "length text - ?endPos < length text - currentPos"
      using True gt nextEndPos_le_length[of "text" maxChars currentPos] by linarith
    ultimately show ?thesis
      using less.hyps[OF _ step] by blast
  qed
qed

lemma splitIntoChunks_chunk_bound:
  "splitIntoChunks text maxChars = Some result \<Longrightarrow> \<forall>c\<in>set result. length c \<le> maxChars + 1"
  unfolding splitIntoChunks_def using splitLoop_chunk_bound[of "text" maxChars 0 "[]" result] by simp

text \<open>
  Claim C1. The specification bounds every chunk of \<open>splitIntoChunks\<close> by \<open>maxChars\<close>, unless
  one unbroken token is longer than \<open>maxChars\<close>. The code looks for the cut point with
  \<open>lastIndexOf(c, endPos)\<close>, which also inspects the character at index \<open>endPos\<close>, the first
  one beyond the window; when a period stands there the cut is \<open>endPos + 1\<close> and the chunk
  has \<open>maxChars + 1\<close> characters. On the text \<open>ab.cd\<close> with \<open>maxChars = 2\<close> the first chunk
  is \<open>ab.\<close>, of length 3, although the two tokens \<open>ab\<close> and \<open>cd\<close> have length 2.
\<close>

theorem splitIntoChunks_chunk_exceeds_maxChars:
  "splitIntoChunks ''ab.cd'' 2 = Some [''ab.'', ''cd'']
   \<and> spec_tokens ''ab.cd'' = [''ab'', ''cd'']
   \<and> length ''ab.'' = 2 + 1"
  by code_simp


section \<open>Properties of the embedding provider\<close>

text \<open>The backend calls leave the embedding cache alone.\<close>

lemma callBackend_cache: "callBackend e text w = (r, w') \<Longrightarrow> embeddingCache w' = embeddingCache w"
  by (auto simp: callBackend_def)

lemma retryLoop_cache:
  assumes "\<And>w r w'. operation w = (r, w') \<Longrightarrow> embeddingCache w' = embeddingCache w"
  shows "retryLoop n operation lastError w = (r, w') \<Longrightarrow> embeddingCache w' = embeddingCache w"
proof (induction n arbitrary: lastError w)
  case 0
  then show ?case by simp
next
  case (Suc n)
  obtain r1 w1 where op: "operation w = (r1, w1)" by (cases "operation w")
  show ?case
  proof (cases r1)
    case (Inl err)
    with Suc.prems op have "retryLoop n operation (Some err) w1 = (r, w')" by simp
    from Suc.IH[OF this] assms[OF op] show ?thesis by simp
  next
    case (Inr v)
    with Suc.prems op assms[OF op] show ?thesis by auto
  qed
qed

lemma generateSingleEmbedding_cache:
  "generateSingleEmbedding e text w = (r, w') \<Longrightarrow> embeddingCache w' = embeddingCache w"
  unfolding generateSingleEmbedding_def retryWrapper_def
  by (rule retryLoop_cache[where operation = "callBackend e text"]) (auto dest: callBackend_cache)

lemma embedChunks_cache:
  "embedChunks e chunks embeddings w = (r, w') \<Longrightarrow> embeddingCache w' = embeddingCache w"
proof (induction chunks arbitrary: embeddings w)
  case Nil
  then show ?case by simp
next
  case (Cons chunk rest)
  obtain r1 w1 where s: "generateSingleEmbedding e chunk w = (r1, w1)"
    by (cases "generateSingleEmbedding e chunk w")
  show ?case
  proof (cases r1)
    case (Inl err)
    with Cons.prems s generateSingleEmbedding_cache[OF s] show ?thesis by auto
  next
    case (Inr v)
    with Cons.prems s have "embedChunks e rest (embeddings @ [v]) w1 = (r, w')" by simp
    from Cons.IH[OF this] generateSingleEmbedding_cache[OF s] show ?thesis by simp
  qed
qed

lemma embedChunks_append:
  "embedChunks e (xs @ ys) embeddings w =
     (case embedChunks e xs embeddings w of
        (Inl err, w') \<Rightarrow> (Inl err, w')
      | (Inr embeddings', w') \<Rightarrow> embedChunks e ys embeddings' w')"
  by (induction xs arbitrary: embeddings w) (auto split: prod.splits sum.splits)

lemma embedChunks_length:
  "embedChunks e chunks embeddings w = (Inr embeddings', w')
     \<Longrightarrow> length embeddings' = length embeddings + length chunks"
  by (induction chunks arbitrary: embeddings w) (auto split: prod.splits sum.splits)

lemma embedChunks_failure:
  assumes "embedChunks e before [] w = (Inr embeddings, w1)"
      and "generateSingleEmbedding e chunk w1 = (Inl err, w2)"
  shows "embedChunks e (before @ chunk # after) [] w = (Inl err, w2)"
  using assms by (simp add: embedChunks_append)

text \<open>
  Claim C4. Let the text be longer than \<open>maxCharsPerChunk\<close>, not in the cache, and split
  into \<open>chunks\<close>. If the chunks before some chunk were embedded and the call for that
  chunk fails (its three attempts have failed), \<open>generateEmbedding\<close> returns that error and
  the embedding cache is what it was. And whenever \<open>generateEmbedding\<close> returns with a
  changed cache, every chunk was embedded, \<open>averageEmbeddings\<close> of the chunk vectors
  succeeded, the result is that average, and the cache differs by the one entry for the
  whole text.
\<close>

theorem generateEmbedding_chunk_failure:
  assumes miss: "map_of (embeddingCache w) (md5hex e text) = None"
      and long: "maxCharsPerChunk config < length text"
      and split: "splitIntoChunks text (maxCharsPerChunk config) = Some chunks"
  shows "(\<forall>before chunk after embeddings w1 err w2.
            chunks = before @ chunk # after
            \<longrightarrow> embedChunks e before [] w = (Inr embeddings, w1)
            \<longrightarrow> generateSingleEmbedding e chunk w1 = (Inl err, w2)
            \<longrightarrow> generateEmbedding e config text w = Some (Inl err, w2)
                \<and> embeddingCache w2 = embeddingCache w)
       \<and> (\<forall>r w'. generateEmbedding e config text w = Some (r, w')
            \<longrightarrow> embeddingCache w' \<noteq> embeddingCache w
            \<longrightarrow> (\<exists>embeddings w1 v.
                   embedChunks e chunks [] w = (Inr embeddings, w1)
                   \<and> length embeddings = length chunks
                   \<and> averageEmbeddings embeddings = Inr v
                   \<and> r = Inr v
                   \<and> embeddingCache w' = AList.update (md5hex e text) v (embeddingCache w)))"
proof (intro conjI allI impI)
  fix before chunk after embeddings w1 err w2
  assume c: "chunks = before @ chunk # after"
     and ok: "embedChunks e before [] w = (Inr embeddings, w1)"
     and fail: "generateSingleEmbedding e chunk w1 = (Inl err, w2)"
  have "embedChunks e chunks [] w = (Inl err, w2)"
    unfolding c by (rule embedChunks_failure[OF ok fail])
  then show "generateEmbedding e config text w = Some (Inl err, w2)"
    using miss long split
    by (simp add: generateEmbedding_def generateMultiChunkEmbedding_def Let_def)
  show "embeddingCache w2 = embeddingCache w"
    using embedChunks_cache[OF ok] generateSingleEmbedding_cache[OF fail] by simp
next
  fix r w'
  assume g: "generateEmbedding e config text w = Some (r, w')"
     and changed: "embeddingCache w' \<noteq> embeddingCache w"
  obtain r1 w1 where ec: "embedChunks e chunks [] w = (r1, w1)"
    by (cases "embedChunks e chunks [] w")
  note frame = embedChunks_cache[OF ec]
  show "\<exists>embeddings w1 v.
          embedChunks e chunks [] w = (Inr embeddings, w1)
          \<and> length embeddings = length chunks
          \<and> averageEmbeddings embeddings = Inr v
          \<and> r = Inr v
          \<and> embeddingCache w' = AList.update (md5hex e text) v (embeddingCache w)"
  proof (cases r1)
    case (Inl err)
    with g ec miss long split frame changed show ?thesis
      by (auto simp: generateEmbedding_def generateMultiChunkEmbedding_def Let_def)
  next
    case (Inr embeddings)
    note len = embedChunks_length[OF ec[unfolded Inr]]
    show ?thesis
    proof (cases "averageEmbeddings embeddings")
      case (Inl err)
      with g ec Inr miss long split frame changed show ?thesis
        by (auto simp: generateEmbedding_def generateMultiChunkEmbedding_def Let_def)
    next
      case (Inr v)
      have "generateEmbedding e config text w =
              Some (Inr v, w1\<lparr>embeddingCache :=
                                AList.update (md5hex e text) v (embeddingCache w1)\<rparr>)"
        using ec \<open>r1 = Inr embeddings\<close> Inr miss long split
        by (simp add: generateEmbedding_def generateMultiChunkEmbedding_def Let_def
            manageCacheSize_def)
      with g have "r = Inr v"
        and "w' = w1\<lparr>embeddingCache := AList.update (md5hex e text) v (embeddingCache w1)\<rparr>"
        by simp_all
      with ec \<open>r1 = Inr embeddings\<close> Inr frame len show ?thesis
        by simp
    qed
  qed
qed

text \<open>The backend fails on the second chunk of \<open>ab.cd\<close>, after three attempts; and a
  backend that answers every chunk.\<close>

lemma split_abcd: "splitIntoChunks ''ab.cd'' 2 = Some [''ab.'', ''cd'']"
  by code_simp

theorem generateEmbedding_chunk_failure_witness:
  "generateEmbedding (stubEnv (failingOn ''cd'') []) (smallConfig 2 100) ''ab.cd'' emptyWorld
     = Some (Inl (BackendError ''unavailable''),
             emptyWorld\<lparr>trace := [EmbedContent ''ab.'', EmbedContent ''cd'', EmbedContent ''cd'',
                                  EmbedContent ''cd'']\<rparr>)
   \<and> embeddingCache emptyWorld = []
   \<and> generateEmbedding (stubEnv (failingOn []) []) (smallConfig 2 100) ''ab.cd'' emptyWorld
     = Some (Inr [Fin 1, Fin 0],
             emptyWorld\<lparr>embeddingCache := [(''ab.cd'', [Fin 1, Fin 0])],
                         trace := [EmbedContent ''ab.'', EmbedContent ''cd'']\<rparr>)
   \<and> embedChunks (stubEnv (failingOn []) []) [''ab.'', ''cd''] [] emptyWorld
     = (Inr [[Fin 1, Fin 0], [Fin 1, Fin 0]], emptyWorld\<lparr>trace := [EmbedContent ''ab.'', EmbedContent ''cd'']\<rparr>)"
proof -
  let ?e = "stubEnv (failingOn ''cd'') []"
  let ?ok = "stubEnv (failingOn []) []"
  let ?c = "smallConfig 2 100"
  let ?w1 = "emptyWorld\<lparr>trace := [EmbedContent ''ab.'']\<rparr>"
  let ?w2 = "emptyWorld\<lparr>trace := [EmbedContent ''ab.'', EmbedContent ''cd'', EmbedContent ''cd'',
                                  EmbedContent ''cd'']\<rparr>"
  let ?w3 = "emptyWorld\<lparr>embeddingCache := [(''ab.cd'', [Fin 1, Fin 0])],
                         trace := [EmbedContent ''ab.'', EmbedContent ''cd'']\<rparr>"
  have miss: "map_of (embeddingCache emptyWorld) (md5hex ?e ''ab.cd'') = None"
    and miss': "map_of (embeddingCache emptyWorld) (md5hex ?ok ''ab.cd'') = None"
    by (simp_all add: emptyWorld_def)
  have long: "maxCharsPerChunk ?c < length ''ab.cd''"
    by (simp add: smallConfig_def)
  have split: "splitIntoChunks ''ab.cd'' (maxCharsPerChunk ?c) = Some [''ab.'', ''cd'']"
    by (simp add: smallConfig_def split_abcd)
  have ok: "embedChunks ?e [''ab.''] [] emptyWorld = (Inr [[Fin 1, Fin 0]], ?w1)"
    by (simp add: generateSingleEmbedding_def retryWrapper_def callBackend_def stubEnv_def
        failingOn_def emptyWorld_def numeral_3_eq_3)
  have fail: "generateSingleEmbedding ?e ''cd'' ?w1 = (Inl (BackendError ''unavailable''), ?w2)"
    by (simp add: generateSingleEmbedding_def retryWrapper_def callBackend_def stubEnv_def
        failingOn_def emptyWorld_def numeral_3_eq_3)
  from generateEmbedding_chunk_failure[OF miss long split, THEN conjunct1, rule_format,
      of "[''ab.'']" "''cd''" "[]", OF _ ok fail]
  have first: "generateEmbedding ?e ?c ''ab.cd'' emptyWorld = Some (Inl (BackendError ''unavailable''), ?w2)
               \<and> embeddingCache emptyWorld = []"
    by (simp add: emptyWorld_def)
  have success: "generateEmbedding ?ok ?c ''ab.cd'' emptyWorld = Some (Inr [Fin 1, Fin 0], ?w3)"
    by (simp add: generateEmbedding_def generateMultiChunkEmbedding_def split_abcd
        generateSingleEmbedding_def retryWrapper_def callBackend_def stubEnv_def
        failingOn_def emptyWorld_def smallConfig_def numeral_3_eq_3 Let_def
        averageEmbeddings_def manageCacheSize_def round64_zero round64_numeral)
  have changed: "embeddingCache ?w3 \<noteq> embeddingCache emptyWorld"
    by (simp add: emptyWorld_def)
  from generateEmbedding_chunk_failure[OF miss' long split, THEN conjunct2, rule_format,
      OF success changed]
  obtain embeddings w1 v where
    "embedChunks ?ok [''ab.'', ''cd''] [] emptyWorld = (Inr embeddings, w1)"
    "length embeddings = 2" "averageEmbeddings embeddings = Inr v"
    by auto
  moreover have "embedChunks ?ok [''ab.'', ''cd''] [] emptyWorld
     = (Inr [[Fin 1, Fin 0], [Fin 1, Fin 0]], emptyWorld\<lparr>trace := [EmbedContent ''ab.'', EmbedContent ''cd'']\<rparr>)"
    by (simp add: generateSingleEmbedding_def retryWrapper_def callBackend_def stubEnv_def
        failingOn_def emptyWorld_def numeral_3_eq_3)
  ultimately show ?thesis using first success by simp
qed

text \<open>
  Claim C10, as amended. A text of whitespace only that is longer than \<open>maxCharsPerChunk\<close>
  and not in the cache. When \<open>maxCharsPerChunk\<close> is positive, \<open>splitIntoChunks\<close> returns no
  chunk, \<open>averageEmbeddings\<close> of the empty list fails, and \<open>generateEmbedding\<close> throws that
  error; neither the cache nor the backend is touched. When \<open>maxCharsPerChunk\<close> is zero,
  the loop of \<open>splitIntoChunks\<close> does not advance and \<open>generateEmbedding\<close> does not return:
  no error is thrown.
\<close>

theorem generateEmbedding_whitespace_only:
  assumes blank: "\<forall>c\<in>set text. isWhitespace c"
      and long: "maxCharsPerChunk config < length text"
      and miss: "map_of (embeddingCache w) (md5hex e text) = None"
  shows "(0 < maxCharsPerChunk config \<longrightarrow>
            splitIntoChunks text (maxCharsPerChunk config) = Some []
            \<and> averageEmbeddings [] = Inl CannotAverageEmpty
            \<and> generateEmbedding e config text w = Some (Inl CannotAverageEmpty, w))
         \<and> (maxCharsPerChunk config = 0 \<longrightarrow>
            splitIntoChunks text (maxCharsPerChunk config) = None
            \<and> generateEmbedding e config text w = None)"
proof (intro conjI impI)
  assume positive: "0 < maxCharsPerChunk config"
  show split: "splitIntoChunks text (maxCharsPerChunk config) = Some []"
    unfolding splitIntoChunks_def by (rule splitLoop_whitespace[OF positive blank])
  show avg: "averageEmbeddings [] = Inl CannotAverageEmpty"
    by (simp add: averageEmbeddings_def)
  show "generateEmbedding e config text w = Some (Inl CannotAverageEmpty, w)"
    using miss long split avg
    by (simp add: generateEmbedding_def generateMultiChunkEmbedding_def Let_def)
next
  assume zero: "maxCharsPerChunk config = 0"
  with long have "0 < length text" by simp
  then show split: "splitIntoChunks text (maxCharsPerChunk config) = None"
    unfolding splitIntoChunks_def zero by (rule splitLoop_zero)
  show "generateEmbedding e config text w = None"
    using miss long split
    by (simp add: generateEmbedding_def generateMultiChunkEmbedding_def Let_def)
qed

text \<open>Three spaces with \<open>maxCharsPerChunk = 0\<close>: the call does not return, so it does not
  throw.\<close>

theorem generateEmbedding_whitespace_only_counterexample:
  "generateEmbedding (stubEnv (failingOn []) []) (smallConfig 0 100) ''   '' emptyWorld = None
   \<and> list_all isWhitespace ''   ''
   \<and> maxCharsPerChunk (smallConfig 0 100) < length ''   ''"
  by (simp add: generateEmbedding_def generateMultiChunkEmbedding_def splitIntoChunks_def
      splitLoop_zero smallConfig_def stubEnv_def emptyWorld_def isWhitespace_def Let_def)

theorem generateEmbedding_whitespace_only_witness:
  "generateEmbedding (stubEnv (failingOn []) []) (smallConfig 2 100) ''   '' emptyWorld
     = Some (Inl CannotAverageEmpty, emptyWorld)
   \<and> splitIntoChunks ''   '' 2 = Some []
   \<and> generateEmbedding (stubEnv (failingOn []) []) (smallConfig 0 100) ''  '' emptyWorld = None
   \<and> splitIntoChunks ''  '' 0 = None"
proof -
  let ?e = "stubEnv (failingOn []) []"
  have blank: "\<forall>c\<in>set ''   ''. isWhitespace c" and blank2: "\<forall>c\<in>set ''  ''. isWhitespace c"
    by (simp_all add: isWhitespace_def)
  have long: "maxCharsPerChunk (smallConfig 2 100) < length ''   ''"
    and long2: "maxCharsPerChunk (smallConfig 0 100) < length ''  ''"
    by (simp_all add: smallConfig_def)
  have miss: "map_of (embeddingCache emptyWorld) (md5hex ?e ''   '') = None"
    and miss2: "map_of (embeddingCache emptyWorld) (md5hex ?e ''  '') = None"
    by (simp_all add: emptyWorld_def)
  from generateEmbedding_whitespace_only[OF blank long miss]
    generateEmbedding_whitespace_only[OF blank2 long2 miss2]
  show ?thesis by (simp add: smallConfig_def)
qed


lemma length_update_new:
  "k \<notin> fst ` set al \<Longrightarrow> length (AList.update k v al) = Suc (length al)"
  by (induction al) auto

text \<open>
  Claim C5. \<open>manageCacheSize\<close> is documented as removing the oldest entries, but removes
  nothing: whatever \<open>cacheSize\<close> is, a successful call on a text that is not in the cache
  leaves the cache one entry longer. With \<open>cacheSize = 1\<close> and one entry in the cache, the
  call for a second text leaves two entries.
\<close>

theorem generateEmbedding_cache_grows:
  assumes miss: "map_of (embeddingCache w) (md5hex e text) = None"
      and success: "generateEmbedding e config text w = Some (Inr v, w')"
  shows "length (embeddingCache w') = Suc (length (embeddingCache w))"
proof -
  obtain w1 where
    inner: "(if length text \<le> maxCharsPerChunk config
             then Some (generateSingleEmbedding e text w)
             else generateMultiChunkEmbedding e config text w) = Some (Inr v, w1)"
    and w': "w' = w1\<lparr>embeddingCache := AList.update (md5hex e text) v (embeddingCache w1)\<rparr>"
    using miss success
    by (auto simp: generateEmbedding_def Let_def manageCacheSize_def
        split: option.splits sum.splits prod.splits)
  have "embeddingCache w1 = embeddingCache w"
  proof (cases "length text \<le> maxCharsPerChunk config")
    case True
    with inner show ?thesis by (auto dest: generateSingleEmbedding_cache)
  next
    case False
    with inner show ?thesis
      by (auto simp: generateMultiChunkEmbedding_def dest: embedChunks_cache
          split: option.splits sum.splits prod.splits)
  qed
  moreover have "md5hex e text \<notin> fst ` set (embeddingCache w)"
    using miss by (simp add: map_of_eq_None_iff)
  ultimately show ?thesis
    using w' by (simp add: length_update_new)
qed

theorem generateEmbedding_cache_grows_witness:
  "length (embeddingCache
      (emptyWorld\<lparr>embeddingCache := [(''a'', [Fin 1, Fin 0]), (''b'', [Fin 1, Fin 0])],
                  trace := [EmbedContent ''b'']\<rparr>))
     = Suc (length [(''a'', [Fin 1, Fin 0])])
   \<and> cacheSize (smallConfig 8000 1) < 2"
proof -
  let ?e = "stubEnv (failingOn []) []"
  let ?w = "emptyWorld\<lparr>embeddingCache := [(''a'', [Fin 1, Fin 0])]\<rparr>"
  let ?w' = "emptyWorld\<lparr>embeddingCache := [(''a'', [Fin 1, Fin 0]), (''b'', [Fin 1, Fin 0])],
                        trace := [EmbedContent ''b'']\<rparr>"
  have miss: "map_of (embeddingCache ?w) (md5hex ?e ''b'') = None"
    by (simp add: stubEnv_def)
  have success: "generateEmbedding ?e (smallConfig 8000 1) ''b'' ?w = Some (Inr [Fin 1, Fin 0], ?w')"
    by (simp add: generateEmbedding_def generateSingleEmbedding_def retryWrapper_def
        callBackend_def stubEnv_def failingOn_def emptyWorld_def smallConfig_def
        manageCacheSize_def numeral_3_eq_3 Let_def)
  from generateEmbedding_cache_grows[OF miss success]
  show ?thesis by (simp add: smallConfig_def)
qed



section \<open>Properties of the similarity calculator\<close>

text \<open>A product with zero is zero or \<open>NaN\<close>, and so is a sum of such products.\<close>

lemma js_mul_zero_left: "js_mul (Fin 0) y = Fin 0 \<or> js_mul (Fin 0) y = NaN"
  by (cases y) (simp_all add: round64_zero)

lemma js_mul_zero_right: "js_mul x (Fin 0) = Fin 0 \<or> js_mul x (Fin 0) = NaN"
  by (cases x) (simp_all add: round64_zero)

lemma js_add_zero_or_NaN:
  assumes "d = Fin 0 \<or> d = NaN" "p = Fin 0 \<or> p = NaN"
  shows "js_add d p = Fin 0 \<or> js_add d p = NaN"
  using assms by (auto simp: round64_zero)

lemma js_sqrt_zero: "js_sqrt (Fin 0) = Fin 0"
  by (simp add: round64_zero)

lemma js_div_by_zero:
  assumes "den = Fin 0 \<or> den = NaN"
  shows "js_div d den = NaN \<or> js_div d den = PInf \<or> js_div d den = NInf"
  using assms by (cases d) (auto split: if_splits)

lemma js_div_zero_by_zero:
  assumes "d = Fin 0 \<or> d = NaN" "den = Fin 0 \<or> den = NaN"
  shows "js_div d den = NaN"
  using assms by auto

lemma cosineLoop_zero_left:
  assumes "length vecA = length vecB" "zeroVector vecA" "d = Fin 0 \<or> d = NaN"
  shows "\<exists>d' nb'. cosineLoop vecA vecB (d, Fin 0, nb) = (d', Fin 0, nb') \<and> (d' = Fin 0 \<or> d' = NaN)"
  using assms
proof (induction vecA vecB arbitrary: d nb rule: list_induct2)
  case Nil
  then show ?case by simp
next
  case (Cons x xs y ys)
  from Cons.prems(1) have x: "x = Fin 0" and rest: "zeroVector xs"
    by (simp_all add: zeroVector_def)
  have "js_add d (js_mul x y) = Fin 0 \<or> js_add d (js_mul x y) = NaN"
    unfolding x by (rule js_add_zero_or_NaN[OF Cons.prems(2) js_mul_zero_left])
  from Cons.IH[OF rest this, of "js_add nb (js_mul y y)"] show ?case
    by (simp add: x round64_zero)
qed

lemma cosineLoop_zero_right:
  assumes "length vecA = length vecB" "zeroVector vecB" "d = Fin 0 \<or> d = NaN"
  shows "\<exists>d' na'. cosineLoop vecA vecB (d, na, Fin 0) = (d', na', Fin 0) \<and> (d' = Fin 0 \<or> d' = NaN)"
  using assms
proof (induction vecA vecB arbitrary: d na rule: list_induct2)
  case Nil
  then show ?case by simp
next
  case (Cons x xs y ys)
  from Cons.prems(1) have y: "y = Fin 0" and rest: "zeroVector ys"
    by (simp_all add: zeroVector_def)
  have "js_add d (js_mul x y) = Fin 0 \<or> js_add d (js_mul x y) = NaN"
    unfolding y by (rule js_add_zero_or_NaN[OF Cons.prems(2) js_mul_zero_right])
  from Cons.IH[OF rest this, of "js_add na (js_mul x x)"] show ?case
    by (simp add: y round64_zero)
qed

text \<open>A zero vector: the dot product and the product of the norms are both zero or \<open>NaN\<close>,
  and their quotient is \<open>NaN\<close>.\<close>

lemma cosineSimilarity_zeroVector:
  assumes len: "length vecA = length vecB"
      and zero: "zeroVector vecA \<or> zeroVector vecB"
  shows "cosineSimilarity vecA vecB = Inr NaN"
  using zero
proof
  assume "zeroVector vecA"
  from cosineLoop_zero_left[OF len this, of "Fin 0" "Fin 0"] obtain d nb where
    loop: "cosineLoop vecA vecB (Fin 0, Fin 0, Fin 0) = (d, Fin 0, nb)" and d: "d = Fin 0 \<or> d = NaN"
    by auto
  have "js_div d (js_mul (js_sqrt (Fin 0)) (js_sqrt nb)) = NaN"
    unfolding js_sqrt_zero by (rule js_div_zero_by_zero[OF d js_mul_zero_left])
  with len loop show ?thesis by (simp add: cosineSimilarity_def)
next
  assume "zeroVector vecB"
  from cosineLoop_zero_right[OF len this, of "Fin 0" "Fin 0"] obtain d na where
    loop: "cosineLoop vecA vecB (Fin 0, Fin 0, Fin 0) = (d, na, Fin 0)" and d: "d = Fin 0 \<or> d = NaN"
    by auto
  have "js_div d (js_mul (js_sqrt na) (js_sqrt (Fin 0))) = NaN"
    unfolding js_sqrt_zero by (rule js_div_zero_by_zero[OF d js_mul_zero_right])
  with len loop show ?thesis by (simp add: cosineSimilarity_def)
qed

text \<open>A squared norm that was computed as zero: the divisor is zero or \<open>NaN\<close>.\<close>

lemma cosineSimilarity_zero_divisor:
  assumes len: "length vecA = length vecB"
      and loop: "cosineLoop vecA vecB (Fin 0, Fin 0, Fin 0) = (dotProduct, normA, normB)"
      and zero: "normA = Fin 0 \<or> normB = Fin 0"
  shows "cosineSimilarity vecA vecB = Inr NaN \<or> cosineSimilarity vecA vecB = Inr PInf
         \<or> cosineSimilarity vecA vecB = Inr NInf"
proof -
  have "js_mul (js_sqrt normA) (js_sqrt normB) = Fin 0
        \<or> js_mul (js_sqrt normA) (js_sqrt normB) = NaN"
    using zero js_mul_zero_left[of "js_sqrt normB"] js_mul_zero_right[of "js_sqrt normA"]
    by (auto simp only: js_sqrt_zero)
  from js_div_by_zero[OF this, of dotProduct] len loop show ?thesis
    by (simp add: cosineSimilarity_def)
qed

lemma calculateSimilarities_threshold:
  "r \<in> set (calculateSimilarities threshold queryEmbedding documents)
     \<Longrightarrow> js_ge (similarity r) threshold"
  by (induction documents) (auto split: option.splits sum.splits if_splits)

lemma js_ge_not_NaN: "js_ge a b \<Longrightarrow> a \<noteq> NaN"
  by (cases a) auto

text \<open>A similarity is the result of a division: a double, an infinity or \<open>NaN\<close>.\<close>

lemma onGrid_special: "onGrid NaN" "onGrid PInf" "onGrid NInf" "onGrid (Fin 0)"
  by (simp_all add: onGrid_def)

lemma js_div_onGrid: "onGrid (js_div a b)"
  by (cases a; cases b) (simp_all add: round64_onGrid onGrid_special)

lemma calculateSimilarities_onGrid:
  "r \<in> set (calculateSimilarities threshold queryEmbedding documents)
     \<Longrightarrow> onGrid (similarity r)"
  by (induction documents)
     (auto simp: cosineSimilarity_def js_div_onGrid split: option.splits sum.splits if_splits
        prod.splits)

lemma js_ge_PInf: "threshold \<noteq> NaN \<Longrightarrow> js_ge PInf threshold"
  by (cases threshold) auto

text \<open>
  Claim C3, as amended. For two vectors of equal length of which one is a zero vector,
  \<open>cosineSimilarity\<close> divides zero by zero and returns \<open>NaN\<close>, not \<open>0\<close>: there is no guard.
  When a squared norm is computed as zero, which also happens to a vector whose squares
  underflow, the result is \<open>NaN\<close> or an infinity. \<open>calculateSimilarities\<close> leaves out a
  document whose similarity is \<open>NaN\<close>, because \<open>NaN >= threshold\<close> is false, so that no
  result it returns has similarity \<open>NaN\<close>; a document whose similarity is \<open>+Infinity\<close>
  passes every threshold and is returned.
\<close>

theorem cosineSimilarity_zero_norm:
  assumes len: "length vecA = length vecB"
      and loop: "cosineLoop vecA vecB (Fin 0, Fin 0, Fin 0) = (dotProduct, normA, normB)"
  shows "(zeroVector vecA \<or> zeroVector vecB \<longrightarrow> cosineSimilarity vecA vecB = Inr NaN)
         \<and> (normA = Fin 0 \<or> normB = Fin 0 \<longrightarrow>
              cosineSimilarity vecA vecB = Inr NaN \<or> cosineSimilarity vecA vecB = Inr PInf
              \<or> cosineSimilarity vecA vecB = Inr NInf)
         \<and> (cosineSimilarity vecA vecB = Inr NaN \<longrightarrow> doc_embedding doc = Some vecB \<longrightarrow>
              calculateSimilarities threshold vecA (doc # documents)
                = calculateSimilarities threshold vecA documents)
         \<and> (cosineSimilarity vecA vecB = Inr PInf \<longrightarrow> doc_embedding doc = Some vecB \<longrightarrow>
              threshold \<noteq> NaN \<longrightarrow>
              calculateSimilarities threshold vecA (doc # documents)
                = \<lparr>res_id = doc_id doc, res_content = doc_content doc,
                   res_metadata = doc_metadata doc, similarity = PInf\<rparr>
                  # calculateSimilarities threshold vecA documents)
         \<and> (\<forall>r\<in>set (calculateSimilarities threshold vecA (doc # documents)).
              similarity r \<noteq> NaN)"
proof (intro conjI impI)
  assume "zeroVector vecA \<or> zeroVector vecB"
  then show "cosineSimilarity vecA vecB = Inr NaN"
    by (rule cosineSimilarity_zeroVector[OF len])
next
  assume "normA = Fin 0 \<or> normB = Fin 0"
  then show "cosineSimilarity vecA vecB = Inr NaN \<or> cosineSimilarity vecA vecB = Inr PInf
              \<or> cosineSimilarity vecA vecB = Inr NInf"
    by (rule cosineSimilarity_zero_divisor[OF len loop])
next
  assume "cosineSimilarity vecA vecB = Inr NaN" "doc_embedding doc = Some vecB"
  then show "calculateSimilarities threshold vecA (doc # documents)
                = calculateSimilarities threshold vecA documents"
    by simp
next
  assume "cosineSimilarity vecA vecB = Inr PInf" "doc_embedding doc = Some vecB"
    "threshold \<noteq> NaN"
  then show "calculateSimilarities threshold vecA (doc # documents)
                = \<lparr>res_id = doc_id doc, res_content = doc_content doc,
                   res_metadata = doc_metadata doc, similarity = PInf\<rparr>
                  # calculateSimilarities threshold vecA documents"
    by (simp add: js_ge_PInf)
next
  show "\<forall>r\<in>set (calculateSimilarities threshold vecA (doc # documents)). similarity r \<noteq> NaN"
    using calculateSimilarities_threshold[of _ threshold vecA "doc # documents"]
    by (blast dest: js_ge_not_NaN)
qed

text \<open>The zero vector against \<open>[1, 2]\<close>: the result is not the sentinel \<open>0\<close>.\<close>

theorem cosineSimilarity_zero_norm_counterexample:
  "cosineSimilarity [Fin 0, Fin 0] [Fin 1, Fin 2] \<noteq> Inr (Fin 0)"
  using cosineSimilarity_zeroVector[of "[Fin 0, Fin 0]" "[Fin 1, Fin 2]"]
  by (simp add: zeroVector_def)

text \<open>A zero vector in the store, and a vector whose square underflows: the first document
  is left out, the second is returned with the similarity \<open>+Infinity\<close>.\<close>

lemma cos11: "cosineSimilarity [Fin 1, Fin 0] [Fin 1, Fin 0] = Inr (Fin 1)"
  by (simp add: cosineSimilarity_def round64_zero round64_numeral)

lemma cosineLoop_tiny: "cosineLoop [Fin 1] [Fin tiny] (Fin 0, Fin 0, Fin 0) = (Fin tiny, Fin 1, Fin 0)"
  by (simp add: round64_zero round64_numeral round64_tiny)

lemma cosineSimilarity_tiny: "cosineSimilarity [Fin 1] [Fin tiny] = Inr PInf"
  using tiny_positive
  by (simp add: cosineSimilarity_def round64_zero round64_numeral round64_tiny)

theorem cosineSimilarity_zero_norm_witness:
  "cosineSimilarity [Fin 1, Fin 0] [Fin 0, Fin 0] = Inr NaN
   \<and> calculateSimilarities minSimilarityThreshold [Fin 1, Fin 0]
        [zeroDoc, sampleDoc ''same'' [Fin 1, Fin 0]]
       = [\<lparr>res_id = ''same'', res_content = ''same'', res_metadata = Map.empty,
           similarity = Fin 1\<rparr>]
   \<and> cosineLoop [Fin 1] [Fin tiny] (Fin 0, Fin 0, Fin 0) = (Fin tiny, Fin 1, Fin 0)
   \<and> cosineSimilarity [Fin 1] [Fin tiny] = Inr PInf
   \<and> calculateSimilarities minSimilarityThreshold [Fin 1] [tinyDoc]
       = [\<lparr>res_id = ''tiny'', res_content = ''tiny'', res_metadata = Map.empty,
           similarity = PInf\<rparr>]"
proof -
  let ?same = "sampleDoc ''same'' [Fin 1, Fin 0]"
  have len: "length [Fin 1, Fin 0] = length [Fin 0, Fin 0]" by simp
  have loop: "cosineLoop [Fin 1, Fin 0] [Fin 0, Fin 0] (Fin 0, Fin 0, Fin 0) = (Fin 0, Fin 1, Fin 0)"
    by (simp add: round64_zero round64_numeral)
  have zero: "zeroVector [Fin 1, Fin 0] \<or> zeroVector [Fin 0, Fin 0]"
    by (simp add: zeroVector_def)
  have emb: "doc_embedding zeroDoc = Some [Fin 0, Fin 0]"
    by (simp add: zeroDoc_def sampleDoc_def)
  have rest: "calculateSimilarities minSimilarityThreshold [Fin 1, Fin 0] [?same]
       = [\<lparr>res_id = ''same'', res_content = ''same'', res_metadata = Map.empty,
           similarity = Fin 1\<rparr>]"
    by (simp add: sampleDoc_def cos11 minSimilarityThreshold_value)
  note first = cosineSimilarity_zero_norm[OF len loop, of zeroDoc minSimilarityThreshold "[?same]"]
  from first zero have nan: "cosineSimilarity [Fin 1, Fin 0] [Fin 0, Fin 0] = Inr NaN"
    by blast
  with first emb rest have dropped:
    "calculateSimilarities minSimilarityThreshold [Fin 1, Fin 0] [zeroDoc, ?same]
       = [\<lparr>res_id = ''same'', res_content = ''same'', res_metadata = Map.empty,
           similarity = Fin 1\<rparr>]"
    by simp
  have len2: "length [Fin 1] = length [Fin tiny]" by simp
  have emb2: "doc_embedding tinyDoc = Some [Fin tiny]"
    by (simp add: tinyDoc_def sampleDoc_def)
  have thr: "minSimilarityThreshold \<noteq> NaN"
    by (simp add: minSimilarityThreshold_value)
  note second = cosineSimilarity_zero_norm[OF len2 cosineLoop_tiny, of tinyDoc minSimilarityThreshold "[]"]
  from second cosineSimilarity_tiny emb2 thr have kept:
    "calculateSimilarities minSimilarityThreshold [Fin 1] [tinyDoc]
       = [\<lparr>res_id = ''tiny'', res_content = ''tiny'', res_metadata = Map.empty,
           similarity = PInf\<rparr>]"
    by (simp add: tinyDoc_def sampleDoc_def)
  from nan dropped kept cosineLoop_tiny cosineSimilarity_tiny show ?thesis by simp
qed

section \<open>Properties of the search provider\<close>

text \<open>The errors that come out of the embedding provider and of the store are not
  validation errors.\<close>

lemma retryLoop_error:
  assumes op: "\<And>w err w'. operation w = (Inl err, w') \<Longrightarrow> P err"
      and last: "case lastError of None \<Rightarrow> 0 < n | Some err \<Rightarrow> P err"
  shows "retryLoop n operation lastError w = (Inl err, w') \<Longrightarrow> P err"
  using last
proof (induction n arbitrary: lastError w)
  case 0
  then show ?case by (auto split: option.splits)
next
  case (Suc n)
  obtain r1 w1 where o: "operation w = (r1, w1)" by (cases "operation w")
  show ?case
  proof (cases r1)
    case (Inl err1)
    with Suc.prems(1) o have "retryLoop n operation (Some err1) w1 = (Inl err, w')" by simp
    moreover have "P err1" using op o Inl by simp
    ultimately show ?thesis using Suc.IH[of "Some err1" w1] by simp
  next
    case (Inr v)
    with Suc.prems(1) o show ?thesis by simp
  qed
qed

lemma generateSingleEmbedding_error:
  "generateSingleEmbedding e text w = (Inl err, w') \<Longrightarrow> \<not> isValidationError err"
  unfolding generateSingleEmbedding_def retryWrapper_def
  by (rule retryLoop_error[where operation = "callBackend e text" and lastError = None and n = 3])
     (auto simp: callBackend_def split: sum.splits)

lemma embedChunks_error:
  "embedChunks e chunks embeddings w = (Inl err, w') \<Longrightarrow> \<not> isValidationError err"
proof (induction chunks arbitrary: embeddings w)
  case Nil
  then show ?case by simp
next
  case (Cons chunk rest)
  obtain r1 w1 where s: "generateSingleEmbedding e chunk w = (r1, w1)"
    by (cases "generateSingleEmbedding e chunk w")
  show ?case
  proof (cases r1)
    case (Inl err1)
    with Cons.prems s generateSingleEmbedding_error[of e chunk w err1 w1] show ?thesis by auto
  next
    case (Inr v)
    with Cons.prems s have "embedChunks e rest (embeddings @ [v]) w1 = (Inl err, w')" by simp
    from Cons.IH[OF this] show ?thesis .
  qed
qed

lemma sumEmbeddings_error:
  "sumEmbeddings dimension embeddings acc = Inl err \<Longrightarrow> err = EmbeddingsMustHaveSameDimension"
  by (induction embeddings arbitrary: acc) (auto split: if_splits)

lemma averageEmbeddings_error:
  "averageEmbeddings embeddings = Inl err \<Longrightarrow> \<not> isValidationError err"
  by (auto simp del: sumEmbeddings.simps simp: averageEmbeddings_def
      split: list.splits sum.splits dest!: sumEmbeddings_error)

lemma generateEmbedding_error:
  assumes "generateEmbedding e config text w = Some (Inl err, w')"
  shows "\<not> isValidationError err"
proof (cases "length text \<le> maxCharsPerChunk config")
  case True
  with assms show ?thesis
    by (auto simp: generateEmbedding_def Let_def split: option.splits sum.splits prod.splits
        dest: generateSingleEmbedding_error)
next
  case False
  with assms show ?thesis
    by (auto simp: generateEmbedding_def generateMultiChunkEmbedding_def Let_def
        split: option.splits sum.splits prod.splits
        dest: embedChunks_error averageEmbeddings_error)
qed

lemma getDocumentsWithCache_error:
  "getDocumentsWithCache e w = (Inl err, w') \<Longrightarrow> \<not> isValidationError err"
  by (auto simp: getDocumentsWithCache_def fetchDocuments_def Let_def
      split: option.splits sum.splits prod.splits if_splits)

lemma searchUncached_error:
  assumes "searchUncached e config threshold query options w = Some (Inl err, w')"
  shows "\<not> isValidationError err"
  using assms
  by (auto simp: searchUncached_def Let_def split: option.splits sum.splits prod.splits
      dest: generateEmbedding_error getDocumentsWithCache_error)

lemma validateQuery_iff:
  "validateQuery query = Inr () \<longleftrightarrow> \<not> list_all isWhitespace query \<and> length query \<le> 10000"
  by (auto simp: validateQuery_def trim_eq_Nil_iff list_all_iff)

text \<open>The range tests of \<open>validateOptions\<close> against the ranges of the specification: they
  agree on every number but \<open>NaN\<close>, which is in no range and fails no test.\<close>

lemma range_test:
  "n \<noteq> NaN \<Longrightarrow> inRange n lo hi \<longleftrightarrow> \<not> js_lt n (Fin lo) \<and> \<not> js_gt n (Fin hi)"
  by (cases n) (auto simp: js_lt_def inRange_def)

lemma range_test_NaN: "\<not> inRange NaN lo hi" "\<not> (js_lt NaN (Fin lo) \<or> js_gt NaN (Fin hi))"
  by (simp_all add: js_lt_def inRange_def)

lemma inRange_passes: "inRange n lo hi \<Longrightarrow> \<not> (js_lt n (Fin lo) \<or> js_gt n (Fin hi))"
  by (cases n) (auto simp: js_lt_def inRange_def)

lemma validateOptions_iff:
  assumes "noNaNOption options"
  shows "validateOptions options = Inr () \<longleftrightarrow>
     \<not> (case limit options of Given n \<Rightarrow> \<not> inRange n 1 100 | _ \<Rightarrow> False)
     \<and> \<not> (case minSimilarity options of Given m \<Rightarrow> \<not> inRange m 0 1 | _ \<Rightarrow> False)"
  using assms
  by (auto simp: validateOptions_def noNaNOption_def range_test split: optional.splits)

lemma valid_input:
  assumes "\<not> spec_invalidInput query options"
  shows "validateQuery query = Inr ()" and "validateOptions options = Inr ()"
proof -
  from assms show "validateQuery query = Inr ()"
    by (simp add: validateQuery_iff spec_invalidInput_def)
  from assms show "validateOptions options = Inr ()"
    by (auto simp: validateOptions_def spec_invalidInput_def split: optional.splits
        dest: inRange_passes)
qed

lemma validate_errors:
  "validateQuery query = Inl err \<Longrightarrow> isValidationError err"
  "validateOptions options = Inl err \<Longrightarrow> isValidationError err"
  by (auto simp: validateQuery_def validateOptions_def split: optional.splits if_splits)

text \<open>
  When no option is \<open>NaN\<close> and the input is invalid in the sense of the specification,
  \<open>searchSimilar\<close> throws a validation error and the state is the one it started from:
  nothing was asked of the backend or of the store, and nothing is attempted again. When
  the input is valid, no error that \<open>searchSimilar\<close> throws is a validation error.
\<close>

lemma searchSimilar_validation_without_NaN:
  "(noNaNOption options \<longrightarrow> spec_invalidInput query options \<longrightarrow>
      (\<exists>err. isValidationError err
             \<and> searchSimilar e config threshold query options w = Some (Inl err, w)))
   \<and> (\<not> spec_invalidInput query options \<longrightarrow>
      (\<forall>err w'. searchSimilar e config threshold query options w = Some (Inl err, w')
                \<longrightarrow> \<not> isValidationError err))"
proof (intro conjI impI allI)
  assume finite: "noNaNOption options" and inv: "spec_invalidInput query options"
  show "\<exists>err. isValidationError err
             \<and> searchSimilar e config threshold query options w = Some (Inl err, w)"
  proof (cases "validateQuery query")
    case (Inl err)
    then show ?thesis using validate_errors(1)[OF Inl] by (auto simp: searchSimilar_def)
  next
    case (Inr u)
    then have q: "validateQuery query = Inr ()" by simp
    with inv have "validateOptions options \<noteq> Inr ()"
      by (auto simp: validateQuery_iff validateOptions_iff[OF finite] spec_invalidInput_def)
    then obtain err where o: "validateOptions options = Inl err"
      by (cases "validateOptions options") auto
    with q validate_errors(2)[OF o] show ?thesis by (auto simp: searchSimilar_def)
  qed
next
  fix err w'
  assume valid: "\<not> spec_invalidInput query options"
     and res: "searchSimilar e config threshold query options w = Some (Inl err, w')"
  note q = valid_input(1)[OF valid] and o = valid_input(2)[OF valid]
  from res q o show "\<not> isValidationError err"
    by (auto simp: searchSimilar_def Let_def split: option.splits prod.splits if_splits
        dest: searchUncached_error)
qed

lemma searchSimilar_validation_example:
  "spec_invalidInput ''  '' noOptions
   \<and> searchSimilar (stubEnv (failingOn ''q'') []) (smallConfig 8000 100) minSimilarityThreshold
         ''  '' noOptions emptyWorld = Some (Inl QueryCannotBeEmpty, emptyWorld)
   \<and> spec_invalidInput ''q'' (limitOnly (Fin 101))
   \<and> searchSimilar (stubEnv (failingOn ''q'') []) (smallConfig 8000 100) minSimilarityThreshold
         ''q'' (limitOnly (Fin 101)) emptyWorld = Some (Inl LimitOutOfRange, emptyWorld)
   \<and> \<not> spec_invalidInput ''q'' noOptions
   \<and> searchSimilar (stubEnv (failingOn ''q'') []) (smallConfig 8000 100) minSimilarityThreshold
         ''q'' noOptions emptyWorld
       = Some (Inl (BackendError ''unavailable''),
               emptyWorld\<lparr>trace := [EmbedContent ''q'', EmbedContent ''q'', EmbedContent ''q'']\<rparr>)
   \<and> \<not> isValidationError (BackendError ''unavailable'')"
proof -
  let ?e = "stubEnv (failingOn ''q'') []"
  let ?c = "smallConfig 8000 100"
  let ?t = minSimilarityThreshold
  have finite: "noNaNOption noOptions" "noNaNOption (limitOnly (Fin 101))"
    by (simp_all add: noNaNOption_def noOptions_def limitOnly_def)
  have bad: "spec_invalidInput ''  '' noOptions"
    by (simp add: spec_invalidInput_def isWhitespace_def)
  have bad2: "spec_invalidInput ''q'' (limitOnly (Fin 101))"
    by (simp add: spec_invalidInput_def isWhitespace_def limitOnly_def inRange_def)
  have good: "\<not> spec_invalidInput ''q'' noOptions"
    by (simp add: spec_invalidInput_def isWhitespace_def noOptions_def)
  have first: "searchSimilar ?e ?c ?t ''  '' noOptions emptyWorld
       = Some (Inl QueryCannotBeEmpty, emptyWorld)"
    by (simp add: searchSimilar_def validateQuery_def trim_def isWhitespace_def)
  have limit: "searchSimilar ?e ?c ?t ''q'' (limitOnly (Fin 101)) emptyWorld
       = Some (Inl LimitOutOfRange, emptyWorld)"
    by (simp add: searchSimilar_def validateQuery_def validateOptions_def trim_def
        isWhitespace_def limitOnly_def js_lt_def)
  have second: "searchSimilar ?e ?c ?t ''q'' noOptions emptyWorld
       = Some (Inl (BackendError ''unavailable''),
               emptyWorld\<lparr>trace := [EmbedContent ''q'', EmbedContent ''q'', EmbedContent ''q'']\<rparr>)"
    by (simp add: searchSimilar_def searchUncached_def validateQuery_def validateOptions_def
        trim_def isWhitespace_def noOptions_def emptyWorld_def generateEmbedding_def
        generateSingleEmbedding_def retryWrapper_def callBackend_def stubEnv_def failingOn_def
        smallConfig_def numeral_3_eq_3 Let_def createSearchCacheKey_def)
  from searchSimilar_validation_without_NaN[of noOptions "''  ''" ?e ?c ?t emptyWorld]
    searchSimilar_validation_without_NaN[of "limitOnly (Fin 101)" "''q''" ?e ?c ?t emptyWorld]
    searchSimilar_validation_without_NaN[of noOptions "''q''" ?e ?c ?t emptyWorld]
    finite bad bad2 good first limit second
  show ?thesis by auto
qed

lemma isCacheValid_expired:
  assumes "cacheTimestamps w cacheKey = Some ts" "cacheTTL \<le> dateNow e (clockReads w) - ts"
  shows "fst (isCacheValid e cacheKey w) = False"
    and "trace (snd (isCacheValid e cacheKey w)) = trace w"
    and "cachedDocuments (snd (isCacheValid e cacheKey w)) = cachedDocuments w"
    and "searchCache (snd (isCacheValid e cacheKey w)) = searchCache w"
  using assms by (auto simp: isCacheValid_def readClock_def)

lemma isCacheValid_frame:
  "trace (snd (isCacheValid e cacheKey w)) = trace w"
  "embeddingCache (snd (isCacheValid e cacheKey w)) = embeddingCache w"
  "cachedDocuments (snd (isCacheValid e cacheKey w)) = cachedDocuments w"
  "searchCache (snd (isCacheValid e cacheKey w)) = searchCache w"
  "cacheTimestamps (snd (isCacheValid e cacheKey w)) = cacheTimestamps w"
  by (auto simp: isCacheValid_def readClock_def split: option.splits)

lemma fetchDocuments_trace: "trace (snd (fetchDocuments e w)) = trace w @ [GetAllDocuments]"
  by (auto simp: fetchDocuments_def setCacheTimestamp_def readClock_def Let_def split: sum.splits)

text \<open>
  The document cache and the query cache are checked by the same \<open>isCacheValid\<close> against
  the same time-to-live, the constant of 30 minutes (1,800,000 ms) of
  \<open>VectorSearchProvider\<close>; the facade stores \<open>searchCacheTTL\<close> (1800 by default) and
  \<open>documentCacheTTL\<close> (3600 by default) in its configuration, and no cache reads them. An
  entry whose timestamp is 30 minutes old or older is treated as absent on the next
  read: \<open>getDocumentsWithCache\<close> asks the store again, and \<open>searchSimilar\<close> on a valid input
  computes the results again.
\<close>

lemma cache_entries_share_one_ttl:
  assumes stamp: "cacheTimestamps w cacheKey = Some ts"
      and old: "cacheTTL \<le> dateNow e (clockReads w) - ts"
  shows "cacheTTL = 1800000
         \<and> searchCacheTTL (kmsConfig noOverrides) = 1800
         \<and> documentCacheTTL (kmsConfig noOverrides) = 3600
         \<and> fst (isCacheValid e cacheKey w) = False
         \<and> (cacheKey = AllDocuments \<longrightarrow>
              trace (snd (getDocumentsWithCache e w)) = trace w @ [GetAllDocuments])
         \<and> (cacheKey = Search (createSearchCacheKey threshold query options)
              \<longrightarrow> \<not> spec_invalidInput query options
              \<longrightarrow> searchSimilar e config threshold query options w
                    = searchUncached e config threshold query options w
                \<or> searchSimilar e config threshold query options w
                    = searchUncached e config threshold query options
                        (w\<lparr>clockReads := Suc (clockReads w)\<rparr>))"
proof (intro conjI impI)
  show "cacheTTL = 1800000" by (simp add: cacheTTL_def)
  show "searchCacheTTL (kmsConfig noOverrides) = 1800"
    by (simp add: kmsConfig_def noOverrides_def)
  show "documentCacheTTL (kmsConfig noOverrides) = 3600"
    by (simp add: kmsConfig_def noOverrides_def)
  show inv: "fst (isCacheValid e cacheKey w) = False"
    by (rule isCacheValid_expired(1)[OF stamp old])
  {
    assume k: "cacheKey = AllDocuments"
    show "trace (snd (getDocumentsWithCache e w)) = trace w @ [GetAllDocuments]"
    proof (cases "cachedDocuments w")
      case None
      then show ?thesis by (simp add: getDocumentsWithCache_def fetchDocuments_trace)
    next
      case (Some documents)
      obtain v w1 where iv: "isCacheValid e AllDocuments w = (v, w1)"
        by (cases "isCacheValid e AllDocuments w")
      with inv k have "v = False" by simp
      moreover have "trace w1 = trace w" using isCacheValid_frame(1)[of e AllDocuments w] iv by simp
      ultimately show ?thesis
        using Some iv by (simp add: getDocumentsWithCache_def fetchDocuments_trace)
    qed
  }
  {
    assume k: "cacheKey = Search (createSearchCacheKey threshold query options)"
       and valid: "\<not> spec_invalidInput query options"
    note q = valid_input(1)[OF valid] and o = valid_input(2)[OF valid]
    show "searchSimilar e config threshold query options w
                    = searchUncached e config threshold query options w
                \<or> searchSimilar e config threshold query options w
                    = searchUncached e config threshold query options
                        (w\<lparr>clockReads := Suc (clockReads w)\<rparr>)"
      using q o stamp old k
      by (auto simp: searchSimilar_def Let_def isCacheValid_def readClock_def
          split: option.splits)
  }
qed

lemma cache_entries_share_one_ttl_example:
  "fst (isCacheValid ((stubEnv (failingOn []) [])\<lparr>dateNow := (\<lambda>_. 1801000)\<rparr>) AllDocuments
            (emptyWorld\<lparr>cachedDocuments := Some [],
                        cacheTimestamps := [AllDocuments \<mapsto> 1000]\<rparr>)) = False
   \<and> trace (snd (getDocumentsWithCache ((stubEnv (failingOn []) [])\<lparr>dateNow := (\<lambda>_. 1801000)\<rparr>)
            (emptyWorld\<lparr>cachedDocuments := Some [],
                        cacheTimestamps := [AllDocuments \<mapsto> 1000]\<rparr>))) = [GetAllDocuments]"
proof -
  let ?e = "(stubEnv (failingOn []) [])\<lparr>dateNow := (\<lambda>_. 1801000)\<rparr>"
  let ?w = "emptyWorld\<lparr>cachedDocuments := Some [], cacheTimestamps := [AllDocuments \<mapsto> 1000]\<rparr>"
  have stamp: "cacheTimestamps ?w AllDocuments = Some 1000" by simp
  have old: "cacheTTL \<le> dateNow ?e (clockReads ?w) - 1000"
    by (simp add: cacheTTL_def)
  from cache_entries_share_one_ttl[OF stamp old]
  show ?thesis by (simp add: emptyWorld_def)
qed

text \<open>
  Claim C6. The specification, and the README and the migration notes of the repository,
  give the document cache its own time-to-live, \<open>documentCacheTTL\<close>, of 3600 seconds by
  default. The code checks both caches against the one constant of 30 minutes. With the
  default configuration, a document list cached at time 1,000 and read at time 1,801,000
  is 1800 seconds old, less than 3600 seconds, and is not valid any more.
\<close>

theorem document_cache_expires_after_30_minutes:
  "documentCacheTTL (kmsConfig noOverrides) = 3600
   \<and> (1801000 - 1000 :: int) < 3600 * 1000
   \<and> fst (isCacheValid ((stubEnv (failingOn []) [])\<lparr>dateNow := (\<lambda>_. 1801000)\<rparr>) AllDocuments
            (emptyWorld\<lparr>cachedDocuments := Some [],
                        cacheTimestamps := [AllDocuments \<mapsto> 1000]\<rparr>)) = False"
  by (simp add: kmsConfig_def noOverrides_def isCacheValid_def readClock_def cacheTTL_def
      emptyWorld_def stubEnv_def)

lemma setCacheTimestamp_simps:
  "searchCache (setCacheTimestamp e k w) = searchCache w"
  "cacheTimestamps (setCacheTimestamp e k w) = (cacheTimestamps w)(k \<mapsto> dateNow e (clockReads w))"
  "trace (setCacheTimestamp e k w) = trace w"
  "embeddingCache (setCacheTimestamp e k w) = embeddingCache w"
  by (simp_all add: setCacheTimestamp_def readClock_def)

lemma searchUncached_stores:
  assumes "searchUncached e config threshold query options w = Some (Inr results, w1)"
  shows "searchCache w1 (createSearchCacheKey threshold query options) = Some results
         \<and> (\<exists>n. cacheTimestamps w1 (Search (createSearchCacheKey threshold query options))
                   = Some (dateNow e n))"
  using assms
  by (auto simp: searchUncached_def Let_def setCacheTimestamp_simps
      split: option.splits sum.splits prod.splits)

lemma searchSimilar_hit:
  assumes q: "validateQuery query = Inr ()" and o: "validateOptions options = Inr ()"
      and c: "searchCache w (createSearchCacheKey threshold query options) = Some results"
      and s: "cacheTimestamps w (Search (createSearchCacheKey threshold query options)) = Some ts"
      and nz: "ts \<noteq> 0"
      and fresh: "dateNow e (clockReads w) - ts < cacheTTL"
  shows "searchSimilar e config threshold query options w
           = Some (Inr results, w\<lparr>clockReads := Suc (clockReads w)\<rparr>)"
  using assms by (simp add: searchSimilar_def Let_def isCacheValid_def readClock_def)

lemma searchSimilar_success_stores:
  assumes first: "searchSimilar e config threshold query options w = Some (Inr results, w1)"
      and clock: "\<forall>n. dateNow e n \<noteq> 0"
  shows "validateQuery query = Inr () \<and> validateOptions options = Inr ()
         \<and> searchCache w1 (createSearchCacheKey threshold query options) = Some results
         \<and> (\<exists>ts. cacheTimestamps w1 (Search (createSearchCacheKey threshold query options)) = Some ts
                 \<and> ts \<noteq> 0)"
proof -
  let ?k = "createSearchCacheKey threshold query options"
  from first have q: "validateQuery query = Inr ()"
    by (cases "validateQuery query") (auto simp: searchSimilar_def)
  from first q have o: "validateOptions options = Inr ()"
    by (cases "validateOptions options") (auto simp: searchSimilar_def)
  have "searchCache w1 ?k = Some results
         \<and> (\<exists>ts. cacheTimestamps w1 (Search ?k) = Some ts \<and> ts \<noteq> 0)"
  proof (cases "searchCache w ?k")
    case None
    with first q o have "searchUncached e config threshold query options w = Some (Inr results, w1)"
      by (simp add: searchSimilar_def Let_def)
    from searchUncached_stores[OF this] clock show ?thesis by auto
  next
    case (Some cached)
    obtain v w' where iv: "isCacheValid e (Search ?k) w = (v, w')"
      by (cases "isCacheValid e (Search ?k) w")
    show ?thesis
    proof (cases v)
      case True
      with first q o Some iv have r: "results = cached" and w1: "w1 = w'"
        by (simp_all add: searchSimilar_def Let_def)
      from iv True obtain ts where "cacheTimestamps w (Search ?k) = Some ts" "ts \<noteq> 0"
        by (auto simp: isCacheValid_def readClock_def split: option.splits if_splits)
      moreover have "cacheTimestamps w' = cacheTimestamps w" "searchCache w' = searchCache w"
        using isCacheValid_frame(4,5)[of e "Search ?k" w] iv by simp_all
      ultimately show ?thesis using r w1 Some by simp
    next
      case False
      with first q o Some iv
      have "searchUncached e config threshold query options w' = Some (Inr results, w1)"
        by (simp add: searchSimilar_def Let_def)
      from searchUncached_stores[OF this] clock show ?thesis by auto
    qed
  qed
  with q o show ?thesis by simp
qed

text \<open>
  Claim C8. A call of \<open>searchSimilar\<close> has returned \<open>results\<close> and left the state \<open>w1\<close>.
  The clock never reads zero, and the next reading is within the time-to-live of the
  timestamp of the entry. Then the same call on \<open>w1\<close> returns \<open>results\<close> again, and the state
  after it differs from \<open>w1\<close> by the one reading of the clock: the trace of calls to the
  backend and to the store is the same.
\<close>

theorem searchSimilar_repeat_from_cache:
  assumes first: "searchSimilar e config threshold query options w = Some (Inr results, w1)"
      and clock: "\<forall>n. dateNow e n \<noteq> 0"
      and fresh: "\<forall>ts. cacheTimestamps w1 (Search (createSearchCacheKey threshold query options))
                        = Some ts \<longrightarrow> dateNow e (clockReads w1) - ts < cacheTTL"
  shows "searchSimilar e config threshold query options w1
           = Some (Inr results, w1\<lparr>clockReads := Suc (clockReads w1)\<rparr>)
         \<and> trace (w1\<lparr>clockReads := Suc (clockReads w1)\<rparr>) = trace w1"
proof -
  from searchSimilar_success_stores[OF first clock] obtain ts where
    q: "validateQuery query = Inr ()" and o: "validateOptions options = Inr ()"
    and c: "searchCache w1 (createSearchCacheKey threshold query options) = Some results"
    and s: "cacheTimestamps w1 (Search (createSearchCacheKey threshold query options)) = Some ts"
    and nz: "ts \<noteq> 0"
    by blast
  from fresh s have "dateNow e (clockReads w1) - ts < cacheTTL" by simp
  from searchSimilar_hit[OF q o c s nz this] show ?thesis by simp
qed


lemma key_q: "createSearchCacheKey threshold ''q'' noOptions = SearchKey ''q'' (JNumber 5) (toJSON threshold) True"
  by (simp add: createSearchCacheKey_def noOptions_def toLowerCase_def toLowerChar_def trim_def
      isWhitespace_def Let_def)

lemma calc6:
  "map similarity (calculateSimilarities minSimilarityThreshold [Fin 1, Fin 0] sixDocuments)
     = replicate 6 (Fin 1)"
  by (simp add: sixDocuments_def sampleDoc_def cos11 numeral_eq_Suc minSimilarityThreshold_value)

lemma noOptions_fields:
  "limit noOptions = Absent" "minSimilarity noOptions = Absent"
  "includeMetadata noOptions = Absent"
  by (simp_all add: noOptions_def)

lemma first_search:
  "searchSimilar (stubEnv (failingOn []) [sampleDoc ''d1'' [Fin 1, Fin 0]]) (smallConfig 8000 100)
     minSimilarityThreshold ''q'' noOptions emptyWorld = Some (Inr oneResult, afterFirstSearch)"
  by (simp add: searchSimilar_def searchUncached_def validateQuery_def
      validateOptions_def trim_def isWhitespace_def emptyWorld_def
      generateEmbedding_def generateSingleEmbedding_def retryWrapper_def callBackend_def
      stubEnv_def failingOn_def smallConfig_def numeral_3_eq_3 Let_def
      getDocumentsWithCache_def fetchDocuments_def setCacheTimestamp_def readClock_def
      manageCacheSize_def applySearchOptions_def sortResultsBySimilarity_def
      compareSimilarity_def sampleDoc_def cos11 key_q oneResult_def afterFirstSearch_def
      noOptions_fields defaultKey_def minSimilarityThreshold_value)

theorem searchSimilar_repeat_from_cache_witness:
  "searchSimilar (stubEnv (failingOn []) [sampleDoc ''d1'' [Fin 1, Fin 0]]) (smallConfig 8000 100)
     minSimilarityThreshold ''q'' noOptions afterFirstSearch
     = Some (Inr oneResult, afterFirstSearch\<lparr>clockReads := 3\<rparr>)
   \<and> trace afterFirstSearch = [EmbedContent ''q'', GetAllDocuments]"
proof -
  let ?e = "stubEnv (failingOn []) [sampleDoc ''d1'' [Fin 1, Fin 0]]"
  have clock: "\<forall>n. dateNow ?e n \<noteq> 0"
    by (simp add: stubEnv_def)
  have fresh: "\<forall>ts. cacheTimestamps afterFirstSearch
                  (Search (createSearchCacheKey minSimilarityThreshold ''q'' noOptions)) = Some ts
               \<longrightarrow> dateNow ?e (clockReads afterFirstSearch) - ts < cacheTTL"
    by (simp add: key_q afterFirstSearch_def stubEnv_def cacheTTL_def defaultKey_def)
  from searchSimilar_repeat_from_cache[OF first_search clock fresh]
  show ?thesis by (simp add: afterFirstSearch_def)
qed

section \<open>Properties of the facade\<close>

lemma invalidateDocumentCache_frame:
  "trace (invalidateDocumentCache w) = trace w"
  "embeddingCache (invalidateDocumentCache w) = embeddingCache w"
  by (simp_all add: invalidateDocumentCache_def)

lemma updateDocument_not_found:
  assumes "storageGetDocument e (trace w) ident = Inr None"
  shows "updateDocument e config ident content metadata w
           = Some (Inl (DocumentNotFound ident), w\<lparr>trace := trace w @ [GetDocument ident]\<rparr>)"
  using assms by (simp add: updateDocument_def Let_def)

lemma updateDocument_same_content:
  assumes found: "storageGetDocument e (trace w) ident = Inr (Some existingDoc)"
      and same: "content = None \<or> content = Some [] \<or> content = Some (doc_content existingDoc)"
  shows "\<exists>r w'. updateDocument e config ident content metadata w = Some (r, w')
           \<and> trace w' = trace w @ [GetDocument ident,
                                    SaveDocument (expectedDocument e ident existingDoc metadata w)]
           \<and> embeddingCache w' = embeddingCache w
           \<and> (r = Inr () \<longleftrightarrow>
                (\<exists>i. storageSaveDocument e (trace w @ [GetDocument ident])
                       (expectedDocument e ident existingDoc metadata w) = Inr i))"
proof -
  let ?doc = "expectedDocument e ident existingDoc metadata w"
  have given: "(case (case content of None \<Rightarrow> None | Some c \<Rightarrow> if c = [] then None else Some c) of
                  None \<Rightarrow> doc_content existingDoc | Some c \<Rightarrow> c) = doc_content existingDoc"
    and noembed: "\<not> (case (case content of None \<Rightarrow> None | Some c \<Rightarrow> if c = [] then None else Some c) of
                  None \<Rightarrow> False | Some c \<Rightarrow> c \<noteq> doc_content existingDoc)"
    using same by (auto split: option.splits)
  show ?thesis
  proof (cases "storageSaveDocument e (trace w @ [GetDocument ident]) ?doc")
    case (Inl message)
    then show ?thesis
      using found given noembed
      by (simp add: updateDocument_def Let_def readClock_def expectedDocument_def)
  next
    case (Inr i)
    then show ?thesis
      using found given noembed
      by (simp add: updateDocument_def Let_def readClock_def expectedDocument_def
          invalidateDocumentCache_frame)
  qed
qed

text \<open>
  Claim C9, as amended. \<open>updateDocument\<close> fails with \<open>DocumentNotFound\<close> when the store has
  no document for the id. When it has one, and the content argument is absent, empty or
  equal to the stored content, the calls made are the look-up and one \<open>saveDocument\<close> of
  the document with the stored content, the stored embedding and the metadata merged
  from the stored and the supplied fields and then stamped with \<open>updatedAt\<close>; the embedding
  cache is unchanged and the backend is not called. The backend is called only when a
  non-empty content that differs from the stored one is given.
\<close>

theorem updateDocument_metadata_only:
  "(storageGetDocument e (trace w) ident = Inr None \<longrightarrow>
      updateDocument e config ident content metadata w
        = Some (Inl (DocumentNotFound ident), w\<lparr>trace := trace w @ [GetDocument ident]\<rparr>))
   \<and> (storageGetDocument e (trace w) ident = Inr (Some existingDoc) \<longrightarrow>
      (content = None \<or> content = Some [] \<or> content = Some (doc_content existingDoc)) \<longrightarrow>
      (\<exists>r w'. updateDocument e config ident content metadata w = Some (r, w')
         \<and> trace w' = trace w @ [GetDocument ident,
                                  SaveDocument (expectedDocument e ident existingDoc metadata w)]
         \<and> embeddingCache w' = embeddingCache w
         \<and> (r = Inr () \<longleftrightarrow>
              (\<exists>i. storageSaveDocument e (trace w @ [GetDocument ident])
                     (expectedDocument e ident existingDoc metadata w) = Inr i))))
   \<and> (storageGetDocument e (trace w) ident = Inr (Some existingDoc) \<longrightarrow>
      (\<forall>r w' t. updateDocument e config ident content metadata w = Some (r, w')
         \<longrightarrow> EmbedContent t \<in> set (drop (length (trace w)) (trace w'))
         \<longrightarrow> (\<exists>c. content = Some c \<and> c \<noteq> [] \<and> c \<noteq> doc_content existingDoc)))"
proof (intro conjI impI allI)
  assume "storageGetDocument e (trace w) ident = Inr None"
  then show "updateDocument e config ident content metadata w
        = Some (Inl (DocumentNotFound ident), w\<lparr>trace := trace w @ [GetDocument ident]\<rparr>)"
    by (rule updateDocument_not_found)
next
  assume "storageGetDocument e (trace w) ident = Inr (Some existingDoc)"
    and "content = None \<or> content = Some [] \<or> content = Some (doc_content existingDoc)"
  then show "\<exists>r w'. updateDocument e config ident content metadata w = Some (r, w')
         \<and> trace w' = trace w @ [GetDocument ident,
                                  SaveDocument (expectedDocument e ident existingDoc metadata w)]
         \<and> embeddingCache w' = embeddingCache w
         \<and> (r = Inr () \<longleftrightarrow>
              (\<exists>i. storageSaveDocument e (trace w @ [GetDocument ident])
                     (expectedDocument e ident existingDoc metadata w) = Inr i))"
    by (rule updateDocument_same_content)
next
  fix r w' t
  assume found: "storageGetDocument e (trace w) ident = Inr (Some existingDoc)"
     and res: "updateDocument e config ident content metadata w = Some (r, w')"
     and emb: "EmbedContent t \<in> set (drop (length (trace w)) (trace w'))"
  show "\<exists>c. content = Some c \<and> c \<noteq> [] \<and> c \<noteq> doc_content existingDoc"
  proof (rule ccontr)
    assume "\<not> (\<exists>c. content = Some c \<and> c \<noteq> [] \<and> c \<noteq> doc_content existingDoc)"
    then have "content = None \<or> content = Some [] \<or> content = Some (doc_content existingDoc)"
      by (cases content) auto
    from updateDocument_same_content[OF found this, of config metadata] res
    have "trace w' = trace w @ [GetDocument ident,
                                  SaveDocument (expectedDocument e ident existingDoc metadata w)]"
      by auto
    with emb show False by simp
  qed
qed

text \<open>A supplied \<open>updatedAt\<close> is not in the saved metadata: the time of the update is.\<close>

theorem updateDocument_metadata_counterexample:
  "map (\<lambda>doc. doc_metadata doc ''updatedAt'')
      (savedBy (updateDocument (stubEnv (failingOn []) [storedDoc]) (smallConfig 8000 100) ''d1''
         None (Some [''updatedAt'' \<mapsto> AString ''mine'']) emptyWorld))
     = [Some (AString ''2026-01-01T00:00:00.000Z'')]
   \<and> (doc_metadata storedDoc ++ [''updatedAt'' \<mapsto> AString ''mine'']) ''updatedAt''
       = Some (AString ''mine'')"
  by (simp add: savedBy_def updateDocument_def stubEnv_def storedDoc_def emptyWorld_def
      readClock_def invalidateDocumentCache_def Let_def)

theorem updateDocument_metadata_only_witness:
  "updateDocument (stubEnv (failingOn []) [storedDoc]) (smallConfig 8000 100) ''missing''
       None (Some [''title'' \<mapsto> AString ''T'']) emptyWorld
     = Some (Inl (DocumentNotFound ''missing''), emptyWorld\<lparr>trace := [GetDocument ''missing'']\<rparr>)
   \<and> savedBy (updateDocument (stubEnv (failingOn []) [storedDoc]) (smallConfig 8000 100) ''d1''
         None (Some [''title'' \<mapsto> AString ''T'']) emptyWorld)
     = [expectedDocument (stubEnv (failingOn []) [storedDoc]) ''d1'' storedDoc
          (Some [''title'' \<mapsto> AString ''T'']) emptyWorld]"
proof -
  let ?e = "stubEnv (failingOn []) [storedDoc]"
  let ?c = "smallConfig 8000 100"
  let ?m = "Some [''title'' \<mapsto> AString ''T'']"
  have missing: "storageGetDocument ?e (trace emptyWorld) ''missing'' = Inr None"
    by (simp add: stubEnv_def storedDoc_def)
  have found: "storageGetDocument ?e (trace emptyWorld) ''d1'' = Inr (Some storedDoc)"
    by (simp add: stubEnv_def storedDoc_def)
  have t: "trace emptyWorld = []" by (simp add: emptyWorld_def)
  from updateDocument_metadata_only[where e = ?e and w = emptyWorld and ident = "''missing''"
      and config = ?c and content = None and metadata = ?m]
    missing
  have a: "updateDocument ?e ?c ''missing'' None ?m emptyWorld
     = Some (Inl (DocumentNotFound ''missing''), emptyWorld\<lparr>trace := [GetDocument ''missing'']\<rparr>)"
    by (simp add: t)
  from updateDocument_metadata_only[where e = ?e and w = emptyWorld and ident = "''d1''"
      and config = ?c and content = None and metadata = ?m and existingDoc = storedDoc]
    found
  have "\<exists>r w'. updateDocument ?e ?c ''d1'' None ?m emptyWorld = Some (r, w')
         \<and> trace w' = [GetDocument ''d1'', SaveDocument (expectedDocument ?e ''d1'' storedDoc ?m emptyWorld)]"
    by (simp add: t) blast
  then have b: "savedBy (updateDocument ?e ?c ''d1'' None ?m emptyWorld)
     = [expectedDocument ?e ''d1'' storedDoc ?m emptyWorld]"
    by (auto simp: savedBy_def)
  from a b show ?thesis by simp
qed

section \<open>Ranking and the limit\<close>

lemma js_gt_ge: "js_gt b a \<Longrightarrow> js_ge b a"
  by (cases a; cases b) auto

lemma js_ge_total: "a \<noteq> NaN \<Longrightarrow> b \<noteq> NaN \<Longrightarrow> \<not> js_gt b a \<Longrightarrow> js_ge a b"
  by (cases a; cases b) auto

lemma js_ge_trans: "js_ge a b \<Longrightarrow> js_ge b c \<Longrightarrow> js_ge a c"
  by (cases a; cases b; cases c) auto

lemma set_insertResult: "set (insertResult a bs) = insert a (set bs)"
  by (induction bs) auto

lemma length_insertResult: "length (insertResult a bs) = Suc (length bs)"
  by (induction bs) auto

lemma insertResult_descending:
  assumes "similarity a \<noteq> NaN" "onGrid (similarity a)"
      and "\<forall>b\<in>set bs. similarity b \<noteq> NaN \<and> onGrid (similarity b)" "descending bs"
  shows "descending (insertResult a bs)"
  using assms
proof (induction bs)
  case Nil
  then show ?case by (simp add: descending_def)
next
  case (Cons b bs)
  show ?case
  proof (cases "js_gt (compareSimilarity a b) (Fin 0)")
    case True
    then have "js_ge (similarity b) (similarity a)"
      using Cons.prems by (simp add: compareSimilarity_def js_gt_sub js_gt_ge)
    moreover have "descending (insertResult a bs)"
      using Cons by (simp add: descending_def)
    ultimately show ?thesis
      using True Cons.prems by (auto simp: descending_def set_insertResult)
  next
    case False
    then have "js_ge (similarity a) (similarity b)"
      using Cons.prems by (simp add: compareSimilarity_def js_gt_sub js_ge_total)
    then show ?thesis
      using False Cons.prems by (auto simp: descending_def intro: js_ge_trans)
  qed
qed

lemma set_sortResults: "set (sortResultsBySimilarity results) = set results"
  by (induction results) (auto simp: sortResultsBySimilarity_def set_insertResult)

lemma length_sortResults: "length (sortResultsBySimilarity results) = length results"
  by (induction results) (auto simp: sortResultsBySimilarity_def length_insertResult)

lemma sortResults_descending:
  "\<forall>r\<in>set results. similarity r \<noteq> NaN \<and> onGrid (similarity r)
     \<Longrightarrow> descending (sortResultsBySimilarity results)"
proof (induction results)
  case Nil
  then show ?case by (simp add: sortResultsBySimilarity_def descending_def)
next
  case (Cons a results)
  then have "descending (sortResultsBySimilarity results)" by simp
  with Cons.prems have "descending (insertResult a (sortResultsBySimilarity results))"
    by (intro insertResult_descending) (auto simp: set_sortResults)
  then show ?case by (simp add: sortResultsBySimilarity_def)
qed

lemma filter_insertResult:
  "filter (\<lambda>r. similarity r = s) (insertResult a bs) =
     (if similarity a = s then a # filter (\<lambda>r. similarity r = s) bs
      else filter (\<lambda>r. similarity r = s) bs)"
  by (induction bs) (auto simp: compareSimilarity_def js_gt_sub_self)

lemma sortResults_stable:
  "filter (\<lambda>r. similarity r = s) (sortResultsBySimilarity results)
     = filter (\<lambda>r. similarity r = s) results"
  by (induction results) (auto simp: sortResultsBySimilarity_def filter_insertResult)

lemma slice0_take: "0 \<le> x \<Longrightarrow> slice0 xs (Fin x) = take (nat \<lfloor>x\<rfloor>) xs"
  by (simp add: truncate_def Let_def)

lemma survivors_not_NaN:
  "\<forall>r\<in>set (survivors (calculateSimilarities threshold queryEmbedding documents) options).
     similarity r \<noteq> NaN \<and> onGrid (similarity r)"
  using calculateSimilarities_threshold[of _ threshold queryEmbedding documents]
    calculateSimilarities_onGrid[of _ threshold queryEmbedding documents]
  by (auto simp: survivors_def split: optional.splits dest: js_ge_not_NaN)

lemma applySearchOptions_similarity:
  "map similarity (applySearchOptions results options) =
     map similarity
       (case limit options of
          Given n \<Rightarrow> slice0 (sortResultsBySimilarity (survivors results options)) n
        | _ \<Rightarrow> sortResultsBySimilarity (survivors results options))"
  "map res_id (applySearchOptions results options) =
     map res_id
       (case limit options of
          Given n \<Rightarrow> slice0 (sortResultsBySimilarity (survivors results options)) n
        | _ \<Rightarrow> sortResultsBySimilarity (survivors results options))"
  by (simp_all add: applySearchOptions_def survivors_def Let_def o_def split: optional.splits)

text \<open>A limit that \<open>validateOptions\<close> lets through is a number from 1 to 100, or \<open>NaN\<close>.\<close>

lemma validateOptions_limit:
  assumes "validateOptions options = Inr ()" "limit options = Given n"
  shows "n = NaN \<or> (\<exists>x. n = Fin x \<and> 1 \<le> x \<and> x \<le> 100)"
  using assms
  by (cases n) (auto simp: validateOptions_def js_lt_def split: optional.splits if_splits)

lemma searchUncached_result:
  assumes "searchUncached e config threshold query options w = Some (Inr finalResults, w')"
  shows "\<exists>queryEmbedding w1 documents w2.
           generateEmbedding e config query w = Some (Inr queryEmbedding, w1)
           \<and> getDocumentsWithCache e w1 = (Inr documents, w2)
           \<and> finalResults
               = applySearchOptions (calculateSimilarities threshold queryEmbedding documents) options"
  using assms
  by (auto simp: searchUncached_def Let_def split: option.splits sum.splits prod.splits)

lemma searchSimilar_miss_result:
  assumes miss: "searchCache w (createSearchCacheKey threshold query options) = None"
      and res: "searchSimilar e config threshold query options w = Some (Inr finalResults, w')"
  shows "\<exists>queryEmbedding w1 documents w2.
           generateEmbedding e config query w = Some (Inr queryEmbedding, w1)
           \<and> getDocumentsWithCache e w1 = (Inr documents, w2)
           \<and> finalResults
               = applySearchOptions (calculateSimilarities threshold queryEmbedding documents) options"
    and "validateOptions options = Inr ()"
proof -
  from res have q: "validateQuery query = Inr ()"
    by (cases "validateQuery query") (auto simp: searchSimilar_def)
  from res q show o: "validateOptions options = Inr ()"
    by (cases "validateOptions options") (auto simp: searchSimilar_def)
  from res q o miss
  have "searchUncached e config threshold query options w = Some (Inr finalResults, w')"
    by (simp add: searchSimilar_def Let_def)
  from searchUncached_result[OF this]
  show "\<exists>queryEmbedding w1 documents w2.
           generateEmbedding e config query w = Some (Inr queryEmbedding, w1)
           \<and> getDocumentsWithCache e w1 = (Inr documents, w2)
           \<and> finalResults
               = applySearchOptions (calculateSimilarities threshold queryEmbedding documents) options" .
qed

lemma searchSimilar_miss_sorted_limited:
  assumes miss: "searchCache w (createSearchCacheKey threshold query options) = None"
      and res: "searchSimilar e config threshold query options w = Some (Inr finalResults, w')"
  shows "\<exists>queryEmbedding w1 documents w2.
           generateEmbedding e config query w = Some (Inr queryEmbedding, w1)
           \<and> getDocumentsWithCache e w1 = (Inr documents, w2)
           \<and> (let kept = survivors (calculateSimilarities threshold queryEmbedding documents) options;
                   ranked = sortResultsBySimilarity kept
               in descending ranked
                  \<and> (\<forall>s. filter (\<lambda>r. similarity r = s) ranked = filter (\<lambda>r. similarity r = s) kept)
                  \<and> (case limit options of
                        Given n \<Rightarrow>
                          map res_id finalResults = map res_id (slice0 ranked n)
                          \<and> map similarity finalResults = map similarity (slice0 ranked n)
                          \<and> (n = NaN \<and> finalResults = []
                             \<or> (\<exists>x. n = Fin x \<and> 1 \<le> x \<and> x \<le> 100
                                    \<and> slice0 ranked n = take (nat \<lfloor>x\<rfloor>) ranked
                                    \<and> real (length finalResults) \<le> x))
                      | _ \<Rightarrow>
                          map res_id finalResults = map res_id ranked
                          \<and> map similarity finalResults = map similarity ranked
                          \<and> length finalResults = length kept))"
proof -
  from searchSimilar_miss_result[OF miss res] obtain queryEmbedding w1 documents w2 where
    g: "generateEmbedding e config query w = Some (Inr queryEmbedding, w1)"
    and d: "getDocumentsWithCache e w1 = (Inr documents, w2)"
    and f: "finalResults
               = applySearchOptions (calculateSimilarities threshold queryEmbedding documents) options"
    and o: "validateOptions options = Inr ()"
    by blast
  let ?kept = "survivors (calculateSimilarities threshold queryEmbedding documents) options"
  let ?ranked = "sortResultsBySimilarity ?kept"
  have desc: "descending ?ranked"
    by (rule sortResults_descending) (rule survivors_not_NaN)
  have stable: "\<forall>s. filter (\<lambda>r. similarity r = s) ?ranked = filter (\<lambda>r. similarity r = s) ?kept"
    by (simp add: sortResults_stable)
  have len: "length finalResults = length (map similarity finalResults)" by simp
  have lim: "case limit options of
               Given n \<Rightarrow>
                 map res_id finalResults = map res_id (slice0 ?ranked n)
                 \<and> map similarity finalResults = map similarity (slice0 ?ranked n)
                 \<and> (n = NaN \<and> finalResults = []
                    \<or> (\<exists>x. n = Fin x \<and> 1 \<le> x \<and> x \<le> 100
                           \<and> slice0 ?ranked n = take (nat \<lfloor>x\<rfloor>) ?ranked
                           \<and> real (length finalResults) \<le> x))
             | _ \<Rightarrow>
                 map res_id finalResults = map res_id ?ranked
                 \<and> map similarity finalResults = map similarity ?ranked
                 \<and> length finalResults = length ?kept"
  proof (cases "limit options")
    case (Given n)
    have ids: "map res_id finalResults = map res_id (slice0 ?ranked n)"
      and sims: "map similarity finalResults = map similarity (slice0 ?ranked n)"
      using Given by (simp_all add: f applySearchOptions_similarity)
    from validateOptions_limit[OF o Given]
    have "n = NaN \<and> finalResults = []
          \<or> (\<exists>x. n = Fin x \<and> 1 \<le> x \<and> x \<le> 100
                 \<and> slice0 ?ranked n = take (nat \<lfloor>x\<rfloor>) ?ranked
                 \<and> real (length finalResults) \<le> x)"
    proof
      assume n: "n = NaN"
      with sims have "finalResults = []" by simp
      with n show ?thesis by simp
    next
      assume "\<exists>x. n = Fin x \<and> 1 \<le> x \<and> x \<le> 100"
      then obtain x where n: "n = Fin x" and x: "1 \<le> x" "x \<le> 100" by blast
      from x have s: "slice0 ?ranked n = take (nat \<lfloor>x\<rfloor>) ?ranked"
        unfolding n by (intro slice0_take) simp
      have "length finalResults \<le> nat \<lfloor>x\<rfloor>"
        unfolding len sims s by simp
      then have "real (length finalResults) \<le> real (nat \<lfloor>x\<rfloor>)" by simp
      also have "\<dots> \<le> x" using x by simp
      finally show ?thesis using n x s by simp
    qed
    with ids sims Given show ?thesis by simp
  next
    case Absent
    have "length finalResults = length (map similarity finalResults)" by simp
    also have "\<dots> = length ?kept"
      unfolding f applySearchOptions_similarity(1) using Absent by (simp add: length_sortResults)
    finally show ?thesis
      using Absent by (simp add: f applySearchOptions_similarity)
  next
    case Undefined
    have "length finalResults = length (map similarity finalResults)" by simp
    also have "\<dots> = length ?kept"
      unfolding f applySearchOptions_similarity(1) using Undefined by (simp add: length_sortResults)
    finally show ?thesis
      using Undefined by (simp add: f applySearchOptions_similarity)
  qed
  from g d desc stable lim show ?thesis
    by (auto simp: Let_def)
qed


text \<open>
  What holds of a result that \<open>searchSimilar\<close> computes (the query cache has no entry for
  the key): it is the list of the surviving results, sorted descending by similarity by
  a stable sort (results of equal similarity keep their retrieval order), and cut by
  \<open>slice(0, limit)\<close> when the options give a limit, which is a number from 1 to 100 or
  \<open>NaN\<close>; without a limit it is the whole sorted list. The facade passes \<open>limit = 5\<close> down
  when the caller's options have no \<open>limit\<close> property, and then returns at most 5 results.
\<close>

lemma searchSimilar_computed_result:
  "(searchCache w (createSearchCacheKey threshold query options) = None \<longrightarrow>
      searchSimilar e config threshold query options w = Some (Inr finalResults, w') \<longrightarrow>
      (\<exists>queryEmbedding w1 documents w2.
           generateEmbedding e config query w = Some (Inr queryEmbedding, w1)
           \<and> getDocumentsWithCache e w1 = (Inr documents, w2)
           \<and> (let kept = survivors (calculateSimilarities threshold queryEmbedding documents) options;
                   ranked = sortResultsBySimilarity kept
               in descending ranked
                  \<and> (\<forall>s. filter (\<lambda>r. similarity r = s) ranked = filter (\<lambda>r. similarity r = s) kept)
                  \<and> (case limit options of
                        Given n \<Rightarrow>
                          map res_id finalResults = map res_id (slice0 ranked n)
                          \<and> map similarity finalResults = map similarity (slice0 ranked n)
                          \<and> (n = NaN \<and> finalResults = []
                             \<or> (\<exists>x. n = Fin x \<and> 1 \<le> x \<and> x \<le> 100
                                    \<and> slice0 ranked n = take (nat \<lfloor>x\<rfloor>) ranked
                                    \<and> real (length finalResults) \<le> x))
                      | _ \<Rightarrow>
                          map res_id finalResults = map res_id ranked
                          \<and> map similarity finalResults = map similarity ranked
                          \<and> length finalResults = length kept))))
   \<and> (limit options = Absent \<longrightarrow>
      searchCache w (createSearchCacheKey threshold query (searchDefaults options)) = None \<longrightarrow>
      search e config threshold query options w = Some (Inr facadeResults, w'') \<longrightarrow>
      length facadeResults \<le> 5)"
proof (intro conjI impI)
  assume "searchCache w (createSearchCacheKey threshold query options) = None"
    and "searchSimilar e config threshold query options w = Some (Inr finalResults, w')"
  then show "\<exists>queryEmbedding w1 documents w2.
           generateEmbedding e config query w = Some (Inr queryEmbedding, w1)
           \<and> getDocumentsWithCache e w1 = (Inr documents, w2)
           \<and> (let kept = survivors (calculateSimilarities threshold queryEmbedding documents) options;
                   ranked = sortResultsBySimilarity kept
               in descending ranked
                  \<and> (\<forall>s. filter (\<lambda>r. similarity r = s) ranked = filter (\<lambda>r. similarity r = s) kept)
                  \<and> (case limit options of
                        Given n \<Rightarrow>
                          map res_id finalResults = map res_id (slice0 ranked n)
                          \<and> map similarity finalResults = map similarity (slice0 ranked n)
                          \<and> (n = NaN \<and> finalResults = []
                             \<or> (\<exists>x. n = Fin x \<and> 1 \<le> x \<and> x \<le> 100
                                    \<and> slice0 ranked n = take (nat \<lfloor>x\<rfloor>) ranked
                                    \<and> real (length finalResults) \<le> x))
                      | _ \<Rightarrow>
                          map res_id finalResults = map res_id ranked
                          \<and> map similarity finalResults = map similarity ranked
                          \<and> length finalResults = length kept))"
    by (rule searchSimilar_miss_sorted_limited)
next
  assume none: "limit options = Absent"
     and miss: "searchCache w (createSearchCacheKey threshold query (searchDefaults options)) = None"
     and res: "search e config threshold query options w = Some (Inr facadeResults, w'')"
  from none have five: "limit (searchDefaults options) = Given (Fin 5)"
    by (simp add: searchDefaults_def)
  from res have "searchSimilar e config threshold query (searchDefaults options) w
                   = Some (Inr facadeResults, w'')"
    by (simp add: search_def)
  from searchSimilar_miss_sorted_limited[OF miss this] five
  have "real (length facadeResults) \<le> 5"
    by (auto simp: Let_def)
  then show "length facadeResults \<le> 5" by simp
qed

text \<open>An explicit \<open>limit: undefined\<close> in the caller's options overrides the default of the
  facade: the six documents are all returned.\<close>

lemma cosines:
  "cosineSimilarity [Fin 1, Fin 0] [Fin 0, Fin 1] = Inr (Fin 0)"
  "cosineSimilarity [Fin 1, Fin 0] [Fin (- 1), Fin 0] = Inr (Fin (- 1))"
  "cosineSimilarity [Fin 1, Fin 0] [Fin 2, Fin 0] = Inr (Fin 1)"
  by (simp_all add: cosineSimilarity_def round64_zero round64_numeral)

lemmas evaluation =
  searchSimilar_def searchUncached_def validateQuery_def
      validateOptions_def trim_def isWhitespace_def emptyWorld_def
      generateEmbedding_def generateSingleEmbedding_def retryWrapper_def callBackend_def
      stubEnv_def failingOn_def smallConfig_def numeral_3_eq_3 Let_def
      getDocumentsWithCache_def fetchDocuments_def setCacheTimestamp_def readClock_def
      manageCacheSize_def applySearchOptions_def sortResultsBySimilarity_def
      compareSimilarity_def sampleDoc_def cos11 cosines truncate_def js_lt_def
      minSimilarityThreshold_value round64_tenth round64_zero round64_numeral

lemma key_q5:
  "createSearchCacheKey threshold ''q'' (limitOnly (Fin 5))
     = SearchKey ''q'' (JNumber 5) (toJSON threshold) True"
  "createSearchCacheKey threshold ''q'' (limitOnly NaN)
     = SearchKey ''q'' (JNumber 5) (toJSON threshold) True"
  by (simp_all add: createSearchCacheKey_def limitOnly_def toLowerCase_def toLowerChar_def
      trim_def isWhitespace_def Let_def)

lemma limitOnly_fields:
  "limit (limitOnly n) = Given n" "minSimilarity (limitOnly n) = Absent"
  "includeMetadata (limitOnly n) = Absent"
  by (simp_all add: limitOnly_def)

lemma searchSimilar_computed_result_example:
  "resultIds (searchSimilar (stubEnv (failingOn []) rankedDocuments) (smallConfig 8000 100)
     (Fin (- 1)) ''q'' (limitOnly (Fin 3)) emptyWorld) = Some [''b'', ''b2'', ''a'']
   \<and> resultCount (search (stubEnv (failingOn []) sixDocuments) (smallConfig 8000 100)
     minSimilarityThreshold ''q'' noOptions emptyWorld) = Some 5
   \<and> resultCount (search (stubEnv (failingOn []) sixDocuments) (smallConfig 8000 100)
     minSimilarityThreshold ''q''
     \<lparr>limit = Undefined, minSimilarity = Absent, includeMetadata = Absent\<rparr> emptyWorld) = Some 6"
proof -
  let ?e = "stubEnv (failingOn []) rankedDocuments"
  let ?e6 = "stubEnv (failingOn []) sixDocuments"
  let ?c = "smallConfig 8000 100"
  let ?t = minSimilarityThreshold
  obtain results w' where
    res: "searchSimilar ?e ?c (Fin (- 1)) ''q'' (limitOnly (Fin 3)) emptyWorld = Some (Inr results, w')"
    and ids: "map res_id results = [''b'', ''b2'', ''a'']"
    by (simp add: evaluation rankedDocuments_def limitOnly_def)
  have miss: "searchCache emptyWorld (createSearchCacheKey (Fin (- 1)) ''q'' (limitOnly (Fin 3))) = None"
    by (simp add: emptyWorld_def)
  from searchSimilar_computed_result[THEN conjunct1, rule_format, OF miss res]
  have le3: "real (length results) \<le> 3"
    by (auto simp: Let_def limitOnly_def)
  obtain facadeResults w'' where
    res6: "search ?e6 ?c ?t ''q'' noOptions emptyWorld = Some (Inr facadeResults, w'')"
    and n6: "length facadeResults = 5"
    by (simp add: search_def searchDefaults_def evaluation sixDocuments_def noOptions_def)
  have none: "limit noOptions = Absent" by (simp add: noOptions_def)
  have miss6: "searchCache emptyWorld
       (createSearchCacheKey ?t ''q'' (searchDefaults noOptions)) = None"
    by (simp add: emptyWorld_def)
  from searchSimilar_computed_result[THEN conjunct2, rule_format, OF none miss6 res6]
  have le5: "length facadeResults \<le> 5" .
  have undefined: "resultCount (search ?e6 ?c ?t ''q''
      \<lparr>limit = Undefined, minSimilarity = Absent, includeMetadata = Absent\<rparr> emptyWorld) = Some 6"
    by (simp add: resultCount_def search_def searchDefaults_def evaluation sixDocuments_def)
  from le3 le5 res ids res6 n6 undefined show ?thesis
    by (simp add: resultIds_def resultCount_def)
qed

text \<open>
  Claim C2. The specification, the README of the repository (\<open>limit\<close>: "Max results (5)")
  and the cache key of the provider itself (\<open>options.limit || 5\<close>) take a missing limit
  for 5, but \<open>applySearchOptions\<close> cuts the list only when a limit is given. On a store of
  six matching documents, \<open>searchSimilar\<close> without a limit returns six results; they are
  cached under the key of limit 5, and a following call with \<open>limit = 5\<close> is served the
  same six.
\<close>

theorem searchSimilar_without_limit_returns_all:
  "resultCount (searchSimilar (stubEnv (failingOn []) sixDocuments) (smallConfig 8000 100)
     minSimilarityThreshold ''q'' noOptions emptyWorld) = Some 6
   \<and> resultCount
        (thenSearch
           (searchSimilar (stubEnv (failingOn []) sixDocuments) (smallConfig 8000 100)
              minSimilarityThreshold ''q'' noOptions emptyWorld)
           (stubEnv (failingOn []) sixDocuments) (smallConfig 8000 100) minSimilarityThreshold ''q''
           (limitOnly (Fin 5))) = Some 6"
  by (simp add: resultCount_def thenSearch_def evaluation key_q key_q5 noOptions_fields
      limitOnly_fields sixDocuments_def isCacheValid_def cacheTTL_def)

text \<open>
  Claim C7. \<open>validateOptions\<close> tests \<open>limit < 1 || limit > 100\<close> and
  \<open>minSimilarity < 0 || minSimilarity > 1\<close>, and throws "must be between". Both tests are
  false of \<open>NaN\<close>, which is in no range: \<open>searchSimilar\<close> with \<open>limit = NaN\<close> throws no
  validation error, asks the backend for the embedding and the store for its documents,
  and returns \<open>slice(0, NaN)\<close>, the empty list. The empty list is cached under the key of
  limit 5 (\<open>NaN || 5\<close>), and a following search without options, which has six results on
  this store, is served none.
\<close>

theorem searchSimilar_NaN_option_not_rejected:
  "spec_invalidInput ''q'' (limitOnly NaN)
   \<and> validateOptions (limitOnly NaN) = Inr ()
   \<and> validateOptions \<lparr>limit = Absent, minSimilarity = Given NaN, includeMetadata = Absent\<rparr> = Inr ()
   \<and> callsOf (searchSimilar (stubEnv (failingOn []) sixDocuments) (smallConfig 8000 100)
        minSimilarityThreshold ''q'' (limitOnly NaN) emptyWorld)
       = Some [EmbedContent ''q'', GetAllDocuments]
   \<and> resultCount (searchSimilar (stubEnv (failingOn []) sixDocuments) (smallConfig 8000 100)
        minSimilarityThreshold ''q'' (limitOnly NaN) emptyWorld) = Some 0
   \<and> resultCount
        (thenSearch
           (searchSimilar (stubEnv (failingOn []) sixDocuments) (smallConfig 8000 100)
              minSimilarityThreshold ''q'' (limitOnly NaN) emptyWorld)
           (stubEnv (failingOn []) sixDocuments) (smallConfig 8000 100) minSimilarityThreshold ''q''
           noOptions) = Some 0"
proof -
  have "spec_invalidInput ''q'' (limitOnly NaN)"
    by (simp add: spec_invalidInput_def limitOnly_def inRange_def)
  moreover have "validateOptions (limitOnly NaN) = Inr ()"
    by (simp add: validateOptions_def limitOnly_def js_lt_def)
  moreover have "validateOptions
      \<lparr>limit = Absent, minSimilarity = Given NaN, includeMetadata = Absent\<rparr> = Inr ()"
    by (simp add: validateOptions_def js_lt_def)
  moreover have "callsOf (searchSimilar (stubEnv (failingOn []) sixDocuments) (smallConfig 8000 100)
        minSimilarityThreshold ''q'' (limitOnly NaN) emptyWorld)
       = Some [EmbedContent ''q'', GetAllDocuments]"
    by (simp add: callsOf_def evaluation key_q5 limitOnly_fields sixDocuments_def)
  moreover have "resultCount (searchSimilar (stubEnv (failingOn []) sixDocuments)
        (smallConfig 8000 100) minSimilarityThreshold ''q'' (limitOnly NaN) emptyWorld) = Some 0"
    by (simp add: resultCount_def evaluation key_q5 limitOnly_fields sixDocuments_def)
  moreover have "resultCount
        (thenSearch
           (searchSimilar (stubEnv (failingOn []) sixDocuments) (smallConfig 8000 100)
              minSimilarityThreshold ''q'' (limitOnly NaN) emptyWorld)
           (stubEnv (failingOn []) sixDocuments) (smallConfig 8000 100) minSimilarityThreshold ''q''
           noOptions) = Some 0"
    by (simp add: resultCount_def thenSearch_def evaluation key_q key_q5 noOptions_fields
        limitOnly_fields sixDocuments_def isCacheValid_def cacheTTL_def)
  ultimately show ?thesis by simp
qed

end
